theory Spec2Isabelle
  imports
    Complex_Main
    "HOL-Library.Sublist"
    "HOL-Library.Char_ord"
    "HOL-Library.List_Lexorder"
    "HOL-Library.Product_Lexorder"
    "HOL-Library.Multiset"
begin

section \<open>Conventions of the embedding\<close>

text \<open>
  The E-E-A-T grader is a Python program. Its data classes become records, its enums
  datatypes, its lists HOL lists and its dictionaries maps. Three idealisations hold
  throughout:
  \<^item> a Python \<^verbatim>\<open>str\<close> is a \<open>string\<close> (a list of 8-bit characters); the character
    classes of \<^verbatim>\<open>re\<close>, \<^verbatim>\<open>str.lower\<close> and \<^verbatim>\<open>str.strip\<close> are the ASCII ones, and a
    character outside ASCII is neither a letter, a digit nor white space;
  \<^item> a Python \<^verbatim>\<open>float\<close> is a \<open>real\<close>: arithmetic is exact, and \<^verbatim>\<open>round(x, 1)\<close> rounds
    to the nearest tenth with ties to the even tenth;
  \<^item> a Python \<^verbatim>\<open>int\<close> is an \<open>int\<close> or, for a length or a count, a \<open>nat\<close>.
\<close>

section \<open>Strings\<close>

definition is_digit :: "char \<Rightarrow> bool" where
  "is_digit c = (48 \<le> (of_char c :: nat) \<and> (of_char c :: nat) \<le> 57)"

definition is_alpha :: "char \<Rightarrow> bool" where
  "is_alpha c = ((65 \<le> (of_char c :: nat) \<and> (of_char c :: nat) \<le> 90)
     \<or> (97 \<le> (of_char c :: nat) \<and> (of_char c :: nat) \<le> 122))"

text \<open>White space as \<^verbatim>\<open>str.isspace\<close> and \<^verbatim>\<open>\s\<close> see it below code point 128:
  9 to 13, 28 to 32.\<close>

definition is_space :: "char \<Rightarrow> bool" where
  "is_space c = ((9 \<le> (of_char c :: nat) \<and> (of_char c :: nat) \<le> 13)
     \<or> (28 \<le> (of_char c :: nat) \<and> (of_char c :: nat) \<le> 32))"

text \<open>A word character of \<^verbatim>\<open>\w\<close>: a letter, a digit or the underscore.\<close>

definition is_word :: "char \<Rightarrow> bool" where
  "is_word c = (is_alpha c \<or> is_digit c \<or> c = CHR ''_'')"

definition lower_ch :: "char \<Rightarrow> char" where
  "lower_ch c =
     (case map_of (zip ''ABCDEFGHIJKLMNOPQRSTUVWXYZ'' ''abcdefghijklmnopqrstuvwxyz'') c of
        None \<Rightarrow> c
      | Some d \<Rightarrow> d)"

text \<open>\<^verbatim>\<open>s.lower()\<close>, \<^verbatim>\<open>s.strip()\<close>, \<^verbatim>\<open>s[a:b]\<close> for \<open>0 \<le> a\<close>, \<open>0 \<le> b\<close>, and \<^verbatim>\<open>sep.join(xs)\<close>.\<close>

definition lower :: "string \<Rightarrow> string" where
  "lower s = map lower_ch s"

definition strip :: "string \<Rightarrow> string" where
  "strip s = rev (dropWhile is_space (rev (dropWhile is_space s)))"

definition slice :: "'a list \<Rightarrow> nat \<Rightarrow> nat \<Rightarrow> 'a list" where
  "slice s a b = take (b - a) (drop a s)"

fun join :: "string \<Rightarrow> string list \<Rightarrow> string" where
  "join sep [] = []"
| "join sep [x] = x"
| "join sep (x # y # ys) = x @ sep @ join sep (y # ys)"

text \<open>\<^verbatim>\<open>str(n)\<close> for an integer.\<close>

fun str_nat :: "nat \<Rightarrow> string" where
  "str_nat n = (if n < 10 then [char_of (48 + n)] else str_nat (n div 10) @ [char_of (48 + n mod 10)])"

declare str_nat.simps [simp del]

definition str_int :: "int \<Rightarrow> string" where
  "str_int i = (if i < 0 then CHR ''-'' # str_nat (nat (- i)) else str_nat (nat i))"

text \<open>\<^verbatim>\<open>a in b\<close> on strings is \<open>sublist a b\<close>; \<^verbatim>\<open>b.startswith(a)\<close> is \<open>prefix a b\<close>.\<close>

section \<open>Regular expressions\<close>

text \<open>
  The patterns of the program use literals, the classes \<^verbatim>\<open>\d\<close>, \<^verbatim>\<open>\s\<close>, \<^verbatim>\<open>\w\<close>, \<^verbatim>\<open>.\<close> and
  bracketed sets, the word boundary \<^verbatim>\<open>\b\<close>, one look-behind on a set, groups, alternation,
  \<^verbatim>\<open>?\<close> on a group or a character, and \<^verbatim>\<open>*\<close> and \<^verbatim>\<open>+\<close> on a single character class only.
  \<open>ends\<close> is the backtracking matcher of \<^verbatim>\<open>re\<close>: started between the character \<open>p\<close>
  (if any) and the rest \<open>s\<close> of the text, it lists the places where the pattern can stop,
  in the order in which \<^verbatim>\<open>re\<close> tries them (greedy repetition first, the left alternative
  first). The flag says whether letters are compared without case (\<^verbatim>\<open>re.IGNORECASE\<close>).
\<close>

datatype cc = CChar char | CDigit | CSpace | CWord | CAny | CUnion cc cc

datatype re =
    Atom cc
  | Bnd
  | Behind cc
  | Cat re re
  | Alt re re
  | Opt re
  | Many cc
  | Many1 cc
  | Eps

fun cc_match :: "bool \<Rightarrow> cc \<Rightarrow> char \<Rightarrow> bool" where
  "cc_match ic (CChar x) c = (if ic then lower_ch c = lower_ch x else c = x)"
| "cc_match ic CDigit c = is_digit c"
| "cc_match ic CSpace c = is_space c"
| "cc_match ic CWord c = is_word c"
| "cc_match ic CAny c = (c \<noteq> CHR 0x0A)"
| "cc_match ic (CUnion a b) c = (cc_match ic a c \<or> cc_match ic b c)"

text \<open>\<^verbatim>\<open>\b\<close>: exactly one of the two neighbours is a word character; the ends of the
  text count as non-word.\<close>

definition at_boundary :: "char option \<Rightarrow> string \<Rightarrow> bool" where
  "at_boundary p s =
     ((case p of None \<Rightarrow> False | Some c \<Rightarrow> is_word c)
      \<noteq> (case s of [] \<Rightarrow> False | c # _ \<Rightarrow> is_word c))"

fun ends :: "bool \<Rightarrow> re \<Rightarrow> char option \<Rightarrow> string \<Rightarrow> (char option \<times> string) list" where
  "ends ic (Atom k) p [] = []"
| "ends ic (Atom k) p (c # cs) = (if cc_match ic k c then [(Some c, cs)] else [])"
| "ends ic Bnd p s = (if at_boundary p s then [(p, s)] else [])"
| "ends ic (Behind k) p s =
     (case p of None \<Rightarrow> [] | Some c \<Rightarrow> if cc_match ic k c then [(p, s)] else [])"
| "ends ic (Cat a b) p s = concat (map (\<lambda>(p', s'). ends ic b p' s') (ends ic a p s))"
| "ends ic (Alt a b) p s = ends ic a p s @ ends ic b p s"
| "ends ic (Opt a) p s = ends ic a p s @ [(p, s)]"
| "ends ic (Many k) p [] = [(p, [])]"
| "ends ic (Many k) p (c # cs) =
     (if cc_match ic k c then ends ic (Many k) (Some c) cs else []) @ [(p, c # cs)]"
| "ends ic (Many1 k) p [] = []"
| "ends ic (Many1 k) p (c # cs) =
     (if cc_match ic k c then ends ic (Many k) (Some c) cs else [])"
| "ends ic Eps p s = [(p, s)]"

text \<open>Pattern text to pattern: a literal string, and a sequence of patterns.\<close>

definition lit :: "string \<Rightarrow> re" where
  "lit s = foldr (\<lambda>c r. Cat (Atom (CChar c)) r) s Eps"

definition cat :: "re list \<Rightarrow> re" where
  "cat rs = foldr Cat rs Eps"

definition alts :: "re list \<Rightarrow> re" where
  "alts rs = foldr Alt (butlast rs) (last rs)"

text \<open>
  \<^verbatim>\<open>re.search\<close>: the first start, from the left, at which the pattern matches, with the
  first stop that \<open>ends\<close> lists there. The result is the pair \<^verbatim>\<open>(m.start(), m.end())\<close>.
\<close>

fun search_from :: "bool \<Rightarrow> re \<Rightarrow> char option \<Rightarrow> string \<Rightarrow> nat \<Rightarrow> (nat \<times> nat) option" where
  "search_from ic r p [] i =
     (case ends ic r p [] of [] \<Rightarrow> None | e # _ \<Rightarrow> Some (i, i))"
| "search_from ic r p (c # cs) i =
     (case ends ic r p (c # cs) of
        [] \<Rightarrow> search_from ic r (Some c) cs (Suc i)
      | (p', s') # _ \<Rightarrow> Some (i, i + (length (c # cs) - length s')))"

definition re_search :: "bool \<Rightarrow> re \<Rightarrow> string \<Rightarrow> (nat \<times> nat) option" where
  "re_search ic r s = search_from ic r None s 0"

text \<open>\<^verbatim>\<open>m.group()\<close> of a match on the text \<open>s\<close>.\<close>

definition group :: "string \<Rightarrow> nat \<times> nat \<Rightarrow> string" where
  "group s m = slice s (fst m) (snd m)"

text \<open>
  \<^verbatim>\<open>re.finditer\<close>: the matches from left to right, without overlap. After a match the
  scan goes on where it stopped; after an empty match the next match at the same place
  has to be non-empty (the flag \<open>adv\<close>), as in Python 3.7 and later.
\<close>

function finditer_from ::
  "bool \<Rightarrow> re \<Rightarrow> bool \<Rightarrow> char option \<Rightarrow> string \<Rightarrow> nat \<Rightarrow> (nat \<times> nat) list" where
  "finditer_from ic r adv p s i =
     (case find (\<lambda>(p', s'). \<not> adv \<or> length s' < length s) (ends ic r p s) of
        Some (p', s') \<Rightarrow>
          (if length s' < length s
           then (i, i + (length s - length s'))
                  # finditer_from ic r False p' s' (i + (length s - length s'))
           else (i, i) # finditer_from ic r True p s i)
      | None \<Rightarrow>
          (case s of
             [] \<Rightarrow> []
           | c # cs \<Rightarrow> finditer_from ic r False (Some c) cs (Suc i)))"
  by pat_completeness auto
termination
  by (relation "measure (\<lambda>(ic, r, adv, p, s, i). 2 * length s + (if adv then 0 else 1))")
     (auto simp: find_Some_iff)

declare finditer_from.simps [simp del]

definition finditer :: "bool \<Rightarrow> re \<Rightarrow> string \<Rightarrow> (nat \<times> nat) list" where
  "finditer ic r s = finditer_from ic r False None s 0"

text \<open>\<^verbatim>\<open>re.split\<close> for a pattern without capturing groups: the pieces between the matches.\<close>

fun pieces :: "string \<Rightarrow> nat \<Rightarrow> (nat \<times> nat) list \<Rightarrow> string list" where
  "pieces s a [] = [drop a s]"
| "pieces s a ((b, e) # ms) = slice s a b # pieces s e ms"

definition re_split :: "bool \<Rightarrow> re \<Rightarrow> string \<Rightarrow> string list" where
  "re_split ic r s = pieces s 0 (finditer ic r s)"

text \<open>The first pattern of a list that matches somewhere, with its match: the loops
  \<^verbatim>\<open>for pat in PATTERNS: m = re.search(pat, s); if m: ...; break\<close>.\<close>

fun first_match :: "bool \<Rightarrow> re list \<Rightarrow> string \<Rightarrow> (nat \<times> nat) option" where
  "first_match ic [] s = None"
| "first_match ic (r # rs) s =
     (case re_search ic r s of None \<Rightarrow> first_match ic rs s | Some m \<Rightarrow> Some m)"

text \<open>Shorthands for the pieces that the patterns repeat: \<^verbatim>\<open>\s+\<close>, \<^verbatim>\<open>\s*\<close>, \<^verbatim>\<open>\d\<close>, one
  character, and an optional character.\<close>

definition ws1 :: re where "ws1 = Many1 CSpace"
definition ws0 :: re where "ws0 = Many CSpace"
definition dg :: re where "dg = Atom CDigit"
definition ch :: "char \<Rightarrow> re" where "ch c = Atom (CChar c)"
definition opt_ch :: "char \<Rightarrow> re" where "opt_ch c = Opt (Atom (CChar c))"

section \<open>Data model (app/models.py)\<close>

datatype YMYLRisk = RISK_HIGH | RISK_MEDIUM | RISK_LOW

datatype ContentPreset =
    GENERAL | LEGAL_PRACTICE_AREA | LEGAL_LOCATION | LEGAL_FAQ | LEGAL_GUIDE
  | LEGAL_CASE_RESULTS | MEDICAL | FINANCE | PRODUCT_REVIEW | DIY_TUTORIAL

datatype EvidenceGrade = SUPPORTED | WEAKLY_SUPPORTED | UNSUPPORTED | NEEDS_QUALIFICATION

datatype FixScope = GLOBAL | NEW_PAGE | PAGE_LEVEL

datatype EffortLevel = EASY | MODERATE | HEAVY

datatype ImpactLevel = HIGH | MEDIUM | LOW

datatype ClaimType =
    STATISTIC | SAFETY | LEGAL_DIRECTIVE | MEDICAL_DIRECTIVE | FINANCIAL | PERFORMANCE
  | COMPARATIVE | DEADLINE | PROCEDURAL | OUTCOME

text \<open>The field names of the records carry a prefix where two classes of the program
  share a field name.\<close>

record AuthorInfo =
  au_name :: "string option"
  au_bio :: "string option"
  au_credentials :: "string option"
  au_profile_url :: "string option"
  has_author_page :: bool

record DateInfo =
  published :: "string option"
  updated :: "string option"
  reviewed :: "string option"

record LinkInfo =
  li_url :: string
  anchor_text :: string
  is_external :: bool
  li_domain :: string
  is_government :: bool
  is_educational :: bool
  is_broken :: bool

record SiteSignals =
  has_about_page :: bool
  has_contact_page :: bool
  has_privacy_policy :: bool
  has_terms :: bool
  has_editorial_policy :: bool
  has_corrections_policy :: bool
  has_attorney_roster :: bool
  contact_paths :: "string list"

record ContentSection =
  cs_heading :: string
  cs_text :: string
  cs_level :: int
  cs_index :: int

record ExtractedContent =
  ec_title :: string
  meta_description :: string
  ec_url :: "string option"
  ec_domain :: "string option"
  raw_html :: string
  plain_text :: string
  word_count :: int
  sections :: "ContentSection list"
  author :: AuthorInfo
  dates :: DateInfo
  outbound_links :: "LinkInfo list"
  internal_links :: "LinkInfo list"
  images :: "string list"
  site_signals :: SiteSignals
  has_schema_markup :: bool
  schema_types :: "string list"
  disclaimers :: "string list"
  disclosure_texts :: "string list"

record Claim =
  cl_text :: string
  claim_type :: ClaimType
  cl_section_index :: int
  evidence_grade :: EvidenceGrade
  nearest_citation :: "string option"
  cl_explanation :: string

record CitationAudit =
  total_claims :: nat
  supported :: nat
  weakly_supported :: nat
  unsupported :: nat
  needs_qualification :: nat
  claims :: "Claim list"
  low_trust_sources :: "string list"

record SignalEvidence =
  ev_signal :: string
  ev_found :: bool
  ev_quote :: string
  ev_location :: string
  ev_points :: real
  ev_explanation :: string

record DimensionScore =
  ds_name :: string
  ds_score :: real
  max_score :: real
  ds_signals :: "SignalEvidence list"
  ds_summary :: string

record ComplianceFlag =
  cf_rule :: string
  cf_severity :: string
  cf_text :: string
  cf_location :: string
  cf_explanation :: string
  cf_fix :: string

record EEATScore =
  overall :: real
  experience :: DimensionScore
  expertise :: DimensionScore
  authoritativeness :: DimensionScore
  trust :: DimensionScore
  ymyl_risk :: YMYLRisk
  preset_used :: ContentPreset
  compliance_flags :: "ComplianceFlag list"

record Recommendation =
  rec_title :: string
  what_to_change :: string
  why_it_matters :: string
  rec_where :: string
  rec_section_index :: "int option"
  copy_block :: string
  effort :: EffortLevel
  impact :: ImpactLevel
  rec_dimension :: string
  points_potential :: real
  rec_scope :: FixScope

text \<open>The truth value of an optional string and of a string: \<^verbatim>\<open>None\<close> and \<^verbatim>\<open>""\<close> are false.\<close>

definition truthy :: "string option \<Rightarrow> bool" where
  "truthy x = (case x of None \<Rightarrow> False | Some s \<Rightarrow> s \<noteq> [])"

text \<open>\<^verbatim>\<open>x or ""\<close> for an optional string.\<close>

definition or_empty :: "string option \<Rightarrow> string" where
  "or_empty x = (case x of None \<Rightarrow> [] | Some s \<Rightarrow> s)"

section \<open>Claim detection and citation auditing (app/analysis/claims.py)\<close>

subsection \<open>The pattern tables\<close>

text \<open>Each pattern is given next to its source text. The patterns of this module are
  searched in the lower-cased sentence, without flags.\<close>

definition STAT_PATTERNS :: "re list" where
  \<open>STAT_PATTERNS =
    [ \<comment> \<open>\<^verbatim>\<open>\d+\s*%\<close>\<close>
      cat [Many1 CDigit, ws0, ch CHR ''%''],
      \<comment> \<open>\<^verbatim>\<open>\$[\d,]+\<close>\<close>
      cat [ch CHR ''$'', Many1 (CUnion CDigit (CChar CHR '',''))],
      \<comment> \<open>\<^verbatim>\<open>studies?\s+show\<close>\<close>
      cat [lit ''studie'', opt_ch CHR ''s'', ws1, lit ''show''],
      \<comment> \<open>\<^verbatim>\<open>research\s+(shows?|indicates?|suggests?|found)\<close>\<close>
      cat [lit ''research'', ws1,
           alts [cat [lit ''show'', opt_ch CHR ''s''], cat [lit ''indicate'', opt_ch CHR ''s''],
                 cat [lit ''suggest'', opt_ch CHR ''s''], lit ''found'']],
      \<comment> \<open>\<^verbatim>\<open>according\s+to\<close>\<close>
      cat [lit ''according'', ws1, lit ''to''],
      \<comment> \<open>\<^verbatim>\<open>data\s+(shows?|indicates?|suggests?)\<close>\<close>
      cat [lit ''data'', ws1,
           alts [cat [lit ''show'', opt_ch CHR ''s''], cat [lit ''indicate'', opt_ch CHR ''s''],
                 cat [lit ''suggest'', opt_ch CHR ''s'']]],
      \<comment> \<open>\<^verbatim>\<open>survey\<close>\<close>
      lit ''survey'',
      \<comment> \<open>\<^verbatim>\<open>on\s+average\<close>\<close>
      cat [lit ''on'', ws1, lit ''average''],
      \<comment> \<open>\<^verbatim>\<open>approximately\s+\d\<close>\<close>
      cat [lit ''approximately'', ws1, dg],
      \<comment> \<open>\<^verbatim>\<open>estimated\s+\d\<close>\<close>
      cat [lit ''estimated'', ws1, dg] ]\<close>

definition LEGAL_DIRECTIVE_PATTERNS :: "re list" where
  \<open>LEGAL_DIRECTIVE_PATTERNS =
    [ \<comment> \<open>\<^verbatim>\<open>statute\s+of\s+limitations?\s+is\s+\d\<close>\<close>
      cat [lit ''statute'', ws1, lit ''of'', ws1, lit ''limitation'', opt_ch CHR ''s'', ws1,
           lit ''is'', ws1, dg],
      \<comment> \<open>\<^verbatim>\<open>you\s+(must|have\s+to|are\s+required\s+to)\s+file\<close>\<close>
      cat [lit ''you'', ws1,
           alts [lit ''must'', cat [lit ''have'', ws1, lit ''to''],
                 cat [lit ''are'', ws1, lit ''required'', ws1, lit ''to'']],
           ws1, lit ''file''],
      \<comment> \<open>\<^verbatim>\<open>deadline\s+(is|of)\s+\d\<close>\<close>
      cat [lit ''deadline'', ws1, alts [lit ''is'', lit ''of''], ws1, dg],
      \<comment> \<open>\<^verbatim>\<open>within\s+\d+\s+(days?|months?|years?)\<close>\<close>
      cat [lit ''within'', ws1, Many1 CDigit, ws1,
           alts [cat [lit ''day'', opt_ch CHR ''s''], cat [lit ''month'', opt_ch CHR ''s''],
                 cat [lit ''year'', opt_ch CHR ''s'']]],
      \<comment> \<open>\<^verbatim>\<open>notice\s+requirement\<close>\<close>
      cat [lit ''notice'', ws1, lit ''requirement''],
      \<comment> \<open>\<^verbatim>\<open>you\s+(can|may)\s+sue\<close>\<close>
      cat [lit ''you'', ws1, alts [lit ''can'', lit ''may''], ws1, lit ''sue''],
      \<comment> \<open>\<^verbatim>\<open>liable\s+for\<close>\<close>
      cat [lit ''liable'', ws1, lit ''for''],
      \<comment> \<open>\<^verbatim>\<open>entitled\s+to\<close>\<close>
      cat [lit ''entitled'', ws1, lit ''to''],
      \<comment> \<open>\<^verbatim>\<open>burden\s+of\s+proof\<close>\<close>
      cat [lit ''burden'', ws1, lit ''of'', ws1, lit ''proof''],
      \<comment> \<open>\<^verbatim>\<open>comparative\s+fault\<close>\<close>
      cat [lit ''comparative'', ws1, lit ''fault''],
      \<comment> \<open>\<^verbatim>\<open>contributory\s+negligence\<close>\<close>
      cat [lit ''contributory'', ws1, lit ''negligence''] ]\<close>

definition MEDICAL_DIRECTIVE_PATTERNS :: "re list" where
  \<open>MEDICAL_DIRECTIVE_PATTERNS =
    [ \<comment> \<open>\<^verbatim>\<open>you\s+should\s+(take|stop|avoid|consult)\<close>\<close>
      cat [lit ''you'', ws1, lit ''should'', ws1,
           alts [lit ''take'', lit ''stop'', lit ''avoid'', lit ''consult'']],
      \<comment> \<open>\<^verbatim>\<open>recommended\s+dosage\<close>\<close>
      cat [lit ''recommended'', ws1, lit ''dosage''],
      \<comment> \<open>\<^verbatim>\<open>side\s+effects?\s+include\<close>\<close>
      cat [lit ''side'', ws1, lit ''effect'', opt_ch CHR ''s'', ws1, lit ''include''],
      \<comment> \<open>\<^verbatim>\<open>(safe|unsafe)\s+to\<close>\<close>
      cat [alts [lit ''safe'', lit ''unsafe''], ws1, lit ''to''] ]\<close>

definition OUTCOME_PATTERNS :: "re list" where
  \<open>OUTCOME_PATTERNS =
    [ \<comment> \<open>\<^verbatim>\<open>you\s+will\s+(get|receive|win|recover|obtain)\<close>\<close>
      cat [lit ''you'', ws1, lit ''will'', ws1,
           alts [lit ''get'', lit ''receive'', lit ''win'', lit ''recover'', lit ''obtain'']],
      \<comment> \<open>\<^verbatim>\<open>guaranteed?\s+\<close>\<close>
      cat [lit ''guarantee'', opt_ch CHR ''d'', ws1],
      \<comment> \<open>\<^verbatim>\<open>always\s+results?\s+in\<close>\<close>
      cat [lit ''always'', ws1, lit ''result'', opt_ch CHR ''s'', ws1, lit ''in''],
      \<comment> \<open>\<^verbatim>\<open>average\s+settlement\<close>\<close>
      cat [lit ''average'', ws1, lit ''settlement''],
      \<comment> \<open>\<^verbatim>\<open>typical\s+(recovery|verdict|settlement)\<close>\<close>
      cat [lit ''typical'', ws1, alts [lit ''recovery'', lit ''verdict'', lit ''settlement'']],
      \<comment> \<open>\<^verbatim>\<open>you\s+can\s+expect\s+to\s+(receive|recover)\<close>\<close>
      cat [lit ''you'', ws1, lit ''can'', ws1, lit ''expect'', ws1, lit ''to'', ws1,
           alts [lit ''receive'', lit ''recover'']] ]\<close>

definition COMPARATIVE_PATTERNS :: "re list" where
  \<open>COMPARATIVE_PATTERNS =
    [ \<comment> \<open>\<^verbatim>\<open>\b(best|top|most|leading|#\s*1|number\s*one|premier)\b\<close>\<close>
      cat [Bnd,
           alts [lit ''best'', lit ''top'', lit ''most'', lit ''leading'',
                 cat [ch CHR ''#'', ws0, ch CHR ''1''], cat [lit ''number'', ws0, lit ''one''],
                 lit ''premier''],
           Bnd],
      \<comment> \<open>\<^verbatim>\<open>better\s+than\<close>\<close>
      cat [lit ''better'', ws1, lit ''than''],
      \<comment> \<open>\<^verbatim>\<open>more\s+effective\s+than\<close>\<close>
      cat [lit ''more'', ws1, lit ''effective'', ws1, lit ''than''],
      \<comment> \<open>\<^verbatim>\<open>outperforms?\<close>\<close>
      cat [lit ''outperform'', opt_ch CHR ''s''],
      \<comment> \<open>\<^verbatim>\<open>superior\s+to\<close>\<close>
      cat [lit ''superior'', ws1, lit ''to''] ]\<close>

definition PROCEDURAL_PATTERNS :: "re list" where
  \<open>PROCEDURAL_PATTERNS =
    [ \<comment> \<open>\<^verbatim>\<open>(first|then|next),?\s+you\s+(must|should|need\s+to|will)\<close>\<close>
      cat [alts [lit ''first'', lit ''then'', lit ''next''], opt_ch CHR '','', ws1, lit ''you'', ws1,
           alts [lit ''must'', lit ''should'', cat [lit ''need'', ws1, lit ''to''], lit ''will'']],
      \<comment> \<open>\<^verbatim>\<open>step\s+\d\<close>\<close>
      cat [lit ''step'', ws1, dg],
      \<comment> \<open>\<^verbatim>\<open>file\s+(a|the|your)\s+\<close>\<close>
      cat [lit ''file'', ws1, alts [lit ''a'', lit ''the'', lit ''your''], ws1],
      \<comment> \<open>\<^verbatim>\<open>serve\s+(the|a)\s+\<close>\<close>
      cat [lit ''serve'', ws1, alts [lit ''the'', lit ''a''], ws1],
      \<comment> \<open>\<^verbatim>\<open>appeal\s+(the|a|within)\<close>\<close>
      cat [lit ''appeal'', ws1, alts [lit ''the'', lit ''a'', lit ''within'']] ]\<close>

text \<open>The list \<^verbatim>\<open>overbroad\<close> of \<^verbatim>\<open>_is_overbroad\<close>.\<close>

definition overbroad_patterns :: "re list" where
  \<open>overbroad_patterns =
    [ \<comment> \<open>\<^verbatim>\<open>\balways\b\<close>\<close>
      cat [Bnd, lit ''always'', Bnd],
      \<comment> \<open>\<^verbatim>\<open>\bnever\b\<close>\<close>
      cat [Bnd, lit ''never'', Bnd],
      \<comment> \<open>\<^verbatim>\<open>\beveryone\b\<close>\<close>
      cat [Bnd, lit ''everyone'', Bnd],
      \<comment> \<open>\<^verbatim>\<open>\bno one\b\<close>\<close>
      cat [Bnd, lit ''no one'', Bnd],
      \<comment> \<open>\<^verbatim>\<open>\bguaranteed?\b\<close>\<close>
      cat [Bnd, lit ''guarantee'', opt_ch CHR ''d'', Bnd],
      \<comment> \<open>\<^verbatim>\<open>\b100\s*%\b\<close>\<close>
      cat [Bnd, lit ''100'', ws0, ch CHR ''%'', Bnd],
      \<comment> \<open>\<^verbatim>\<open>\ball\s+cases?\b\<close>\<close>
      cat [Bnd, lit ''all'', ws1, lit ''case'', opt_ch CHR ''s'', Bnd],
      \<comment> \<open>\<^verbatim>\<open>\bwithout\s+exception\b\<close>\<close>
      cat [Bnd, lit ''without'', ws1, lit ''exception'', Bnd] ]\<close>

text \<open>The pattern of the sentence splitter: \<^verbatim>\<open>(?<=[.!?])\s+\<close>.\<close>

definition sentence_break :: re where
  "sentence_break =
     cat [Behind (CUnion (CChar CHR ''.'') (CUnion (CChar CHR ''!'') (CChar CHR ''?''))), ws1]"

subsection \<open>The functions\<close>

text \<open>One family of \<^verbatim>\<open>_match_claim_type\<close>: the first pattern that matches the lower-cased
  sentence gives one hit, the claim type with the matched text.\<close>

definition family_hit :: "ClaimType \<Rightarrow> re list \<Rightarrow> string \<Rightarrow> (ClaimType \<times> string) list" where
  "family_hit ty pats s =
     (case first_match False pats s of None \<Rightarrow> [] | Some m \<Rightarrow> [(ty, group s m)])"

definition match_claim_type :: "string \<Rightarrow> (ClaimType \<times> string) list" where
  "match_claim_type sentence =
     (let s = lower sentence in
        family_hit STATISTIC STAT_PATTERNS s
      @ family_hit LEGAL_DIRECTIVE LEGAL_DIRECTIVE_PATTERNS s
      @ family_hit MEDICAL_DIRECTIVE MEDICAL_DIRECTIVE_PATTERNS s
      @ family_hit OUTCOME OUTCOME_PATTERNS s
      @ family_hit COMPARATIVE COMPARATIVE_PATTERNS s
      @ family_hit PROCEDURAL PROCEDURAL_PATTERNS s)"

definition sentences_of :: "string \<Rightarrow> string list" where
  "sentences_of txt =
     map strip (filter (\<lambda>s. 20 < length (strip s)) (re_split False sentence_break txt))"

definition trusted_domains :: "string list" where
  "trusted_domains = [''nih.gov'', ''cdc.gov'', ''who.int'', ''law.cornell.edu'', ''uscourts.gov'']"

definition low_trust_indicators :: "string list" where
  "low_trust_indicators = [''blog'', ''forum'', ''reddit'', ''quora'', ''medium.com'', ''wikipedia'']"

definition grade_claim ::
  "string \<Rightarrow> LinkInfo list \<Rightarrow> EvidenceGrade \<times> string option \<times> string" where
  "grade_claim sentence section_links =
     (case section_links of
        [] \<Rightarrow> (UNSUPPORTED, None, ''No citation found near this claim.'')
      | best_link # _ \<Rightarrow>
          if is_government best_link \<or> is_educational best_link
          then (SUPPORTED, Some (li_url best_link),
                ''Supported by authoritative source ('' @ li_domain best_link @ '').'')
          else if li_domain best_link \<in> set trusted_domains
          then (SUPPORTED, Some (li_url best_link),
                ''Supported by trusted source ('' @ li_domain best_link @ '').'')
          else if list_ex (\<lambda>lt. sublist lt (li_domain best_link) \<or> sublist lt (li_url best_link))
                    low_trust_indicators
          then (WEAKLY_SUPPORTED, Some (li_url best_link),
                ''Citation present but source may lack authority ('' @ li_domain best_link @ '').'')
          else (SUPPORTED, Some (li_url best_link),
                ''Citation present ('' @ li_domain best_link @ '').''))"

definition is_overbroad :: "string \<Rightarrow> bool" where
  "is_overbroad sentence =
     list_ex (\<lambda>p. re_search False p (lower sentence) \<noteq> None) overbroad_patterns"

text \<open>The per-section link index: \<^verbatim>\<open>section_links.setdefault(sec.index, []).append(link)\<close>
  for every link and every section whose text contains the anchor text of the link.\<close>

definition add_link :: "(int \<rightharpoonup> LinkInfo list) \<Rightarrow> int \<Rightarrow> LinkInfo \<Rightarrow> (int \<rightharpoonup> LinkInfo list)" where
  "add_link m k l = m(k \<mapsto> (case m k of None \<Rightarrow> [] | Some ls \<Rightarrow> ls) @ [l])"

definition section_links_of :: "ExtractedContent \<Rightarrow> (int \<rightharpoonup> LinkInfo list)" where
  "section_links_of content =
     fold (\<lambda>link m.
             fold (\<lambda>sec m'.
                     if anchor_text link \<noteq> [] \<and> sublist (lower (anchor_text link)) (lower (cs_text sec))
                     then add_link m' (cs_index sec) link
                     else m')
                  (sections content) m)
          (outbound_links content) Map.empty"

text \<open>\<^verbatim>\<open>links_nearby = section_links.get(section.index, [])\<close>.\<close>

definition links_nearby_of :: "ExtractedContent \<Rightarrow> ContentSection \<Rightarrow> LinkInfo list" where
  "links_nearby_of content section =
     (case section_links_of content (cs_index section) of None \<Rightarrow> [] | Some ls \<Rightarrow> ls)"

definition overbroad_explanation :: string where
  "overbroad_explanation =
     ''This claim uses absolute language and should be scoped with conditions or jurisdiction.''"

text \<open>The body of the innermost loop: one claim type of one sentence. The state is the
  pair \<^verbatim>\<open>(all_claims, low_trust)\<close>.\<close>

definition audit_match ::
  "ContentSection \<Rightarrow> LinkInfo list \<Rightarrow> string \<Rightarrow> ClaimType \<times> string
     \<Rightarrow> Claim list \<times> string set \<Rightarrow> Claim list \<times> string set" where
  "audit_match section links_nearby sentence hit st =
     (let (grade0, citation, explanation0) = grade_claim sentence links_nearby;
          grade = (if is_overbroad sentence then NEEDS_QUALIFICATION else grade0);
          explanation = (if is_overbroad sentence then overbroad_explanation else explanation0);
          low_trust = (if grade = WEAKLY_SUPPORTED \<and> truthy citation
                       then insert (the citation) (snd st) else snd st)
      in (fst st @ [\<lparr> cl_text = sentence, claim_type = fst hit,
                       cl_section_index = cs_index section, evidence_grade = grade,
                       nearest_citation = citation, cl_explanation = explanation \<rparr>],
          low_trust))"

definition audit_sentence ::
  "ContentSection \<Rightarrow> LinkInfo list \<Rightarrow> string
     \<Rightarrow> Claim list \<times> string set \<Rightarrow> Claim list \<times> string set" where
  "audit_sentence section links_nearby sentence st =
     fold (audit_match section links_nearby sentence) (match_claim_type sentence) st"

definition audit_section ::
  "ExtractedContent \<Rightarrow> ContentSection \<Rightarrow> Claim list \<times> string set \<Rightarrow> Claim list \<times> string set" where
  "audit_section content section st =
     fold (audit_sentence section (links_nearby_of content section))
          (sentences_of (cs_text section)) st"

definition count_grade :: "EvidenceGrade \<Rightarrow> Claim list \<Rightarrow> nat" where
  "count_grade g cs = length (filter (\<lambda>c. evidence_grade c = g) cs)"

definition audit_claims :: "ExtractedContent \<Rightarrow> CitationAudit" where
  "audit_claims content =
     (let (all_claims, low_trust) = fold (audit_section content) (sections content) ([], {})
      in \<lparr> total_claims = length all_claims,
           supported = count_grade SUPPORTED all_claims,
           weakly_supported = count_grade WEAKLY_SUPPORTED all_claims,
           unsupported = count_grade UNSUPPORTED all_claims,
           needs_qualification = count_grade NEEDS_QUALIFICATION all_claims,
           claims = all_claims,
           low_trust_sources = sorted_list_of_set low_trust \<rparr>)"

subsection \<open>The audit as a list of claims\<close>

text \<open>The loops of \<^verbatim>\<open>audit_claims\<close> only append to \<^verbatim>\<open>all_claims\<close> and add to
  \<^verbatim>\<open>low_trust\<close>. The definitions below name what one hit, one sentence and one section
  contribute; the lemmas of the last part show that the loops compute exactly this.\<close>

definition claim_of :: "ContentSection \<Rightarrow> LinkInfo list \<Rightarrow> string \<Rightarrow> ClaimType \<times> string \<Rightarrow> Claim" where
  "claim_of section links_nearby sentence hit =
     \<lparr> cl_text = sentence, claim_type = fst hit, cl_section_index = cs_index section,
       evidence_grade = (if is_overbroad sentence then NEEDS_QUALIFICATION
                         else fst (grade_claim sentence links_nearby)),
       nearest_citation = fst (snd (grade_claim sentence links_nearby)),
       cl_explanation = (if is_overbroad sentence then overbroad_explanation
                         else snd (snd (grade_claim sentence links_nearby))) \<rparr>"

definition low_trust_of :: "Claim list \<Rightarrow> string set" where
  "low_trust_of cs =
     (\<Union>c \<in> set cs. if evidence_grade c = WEAKLY_SUPPORTED \<and> truthy (nearest_citation c)
                     then {the (nearest_citation c)} else {})"

definition sentence_claims :: "ContentSection \<Rightarrow> LinkInfo list \<Rightarrow> string \<Rightarrow> Claim list" where
  "sentence_claims section links_nearby sentence =
     map (claim_of section links_nearby sentence) (match_claim_type sentence)"

definition section_claims :: "ExtractedContent \<Rightarrow> ContentSection \<Rightarrow> Claim list" where
  "section_claims content section =
     concat (map (sentence_claims section (links_nearby_of content section))
                 (sentences_of (cs_text section)))"


section \<open>The rules engine (app/scoring/rules\_engine.py)\<close>

text \<open>\<^verbatim>\<open>_signal\<close>: the points are kept only when the signal was found; the quote is cut to
  300 characters.\<close>

definition signal_ev :: "string \<Rightarrow> bool \<Rightarrow> real \<Rightarrow> string \<Rightarrow> string \<Rightarrow> string \<Rightarrow> SignalEvidence" where
  "signal_ev name found pts quote location explanation =
     \<lparr> ev_signal = name, ev_found = found, ev_quote = take 300 quote, ev_location = location,
       ev_points = (if found then pts else 0), ev_explanation = explanation \<rparr>"

subsection \<open>Trust checks\<close>

definition check_about_page :: "ExtractedContent \<Rightarrow> SignalEvidence" where
  \<open>check_about_page c =
     signal_ev ''About page linked'' (has_about_page (site_signals c)) 2 [] []
       ''An 'About' page establishes site identity and ownership.''\<close>

definition check_contact_page :: "ExtractedContent \<Rightarrow> SignalEvidence" where
  "check_contact_page c =
     (let paths = join '', '' (take 3 (contact_paths (site_signals c))) in
      signal_ev ''Contact information present''
        (has_contact_page (site_signals c) \<or> contact_paths (site_signals c) \<noteq> []) 2 paths []
        ''Reachable contact info builds reader trust.'')"

definition check_privacy_policy :: "ExtractedContent \<Rightarrow> SignalEvidence" where
  "check_privacy_policy c =
     signal_ev ''Privacy policy linked'' (has_privacy_policy (site_signals c)) 1 [] []
       ''A privacy policy is a baseline trust signal for any website.''"

definition check_terms :: "ExtractedContent \<Rightarrow> SignalEvidence" where
  "check_terms c =
     signal_ev ''Terms of service linked'' (has_terms (site_signals c)) 1 [] []
       ''Terms of service clarify the relationship between site and user.''"

definition check_editorial_policy :: "ExtractedContent \<Rightarrow> SignalEvidence" where
  "check_editorial_policy c =
     signal_ev ''Editorial / review policy'' (has_editorial_policy (site_signals c)) 2 [] []
       ''An editorial policy signals content review processes.''"

definition check_dates :: "ExtractedContent \<Rightarrow> SignalEvidence" where
  "check_dates c =
     (let has_pub = truthy (published (dates c));
          has_upd = truthy (updated (dates c));
          found = (has_pub \<or> has_upd);
          detail = (if has_pub then [''Published: '' @ or_empty (published (dates c))] else [])
                 @ (if has_upd then [''Updated: '' @ or_empty (updated (dates c))] else [])
      in signal_ev ''Dates shown (published / updated)'' found 2 (join ''; '' detail) []
           ''Visible dates let readers judge freshness and maintenance.'')"

definition check_citations_count :: "ExtractedContent \<Rightarrow> SignalEvidence" where
  "check_citations_count c =
     (let ext = outbound_links c;
          quality = filter (\<lambda>l. is_government l \<or> is_educational l) ext;
          count = length ext;
          q_count = length quality;
          pts = min 3 (real count * 0.3 + real q_count * 0.5)
      in signal_ev ''Outbound citation count and quality'' (0 < count) pts
           (str_nat count @ '' outbound links, '' @ str_nat q_count @ '' high-authority'') []
           ''Credible outbound citations support claims and build trust.'')"

definition check_disclaimers :: "ExtractedContent \<Rightarrow> SignalEvidence" where
  "check_disclaimers c =
     (let found = (disclaimers c \<noteq> []);
          snippet = (case disclaimers c of [] \<Rightarrow> [] | d # _ \<Rightarrow> take 200 d)
      in signal_ev ''Disclaimer / legal notice present'' found 2 snippet []
           ''Disclaimers set expectations and reduce misleading impressions.'')"

definition check_disclosures :: "ExtractedContent \<Rightarrow> SignalEvidence" where
  "check_disclosures c =
     (let found = (disclosure_texts c \<noteq> []);
          snippet = (case disclosure_texts c of [] \<Rightarrow> [] | d # _ \<Rightarrow> take 200 d)
      in signal_ev ''Affiliate / advertising disclosure'' found 1.5 snippet []
           ''Disclosures are required when content is monetized.'')"

definition check_schema :: "ExtractedContent \<Rightarrow> SignalEvidence" where
  \<open>check_schema c =
     signal_ev ''Structured data (schema.org)'' (has_schema_markup c) 1.5
       (join '', '' (take 5 (schema_types c))) []
       ''Schema markup helps search engines understand the page's purpose.''\<close>

definition TRUST_CHECKS :: "(ExtractedContent \<Rightarrow> SignalEvidence) list" where
  "TRUST_CHECKS =
     [check_about_page, check_contact_page, check_privacy_policy, check_terms,
      check_editorial_policy, check_dates, check_citations_count, check_disclaimers,
      check_disclosures, check_schema]"

subsection \<open>Experience checks\<close>

text \<open>The patterns of the rules engine are searched with \<^verbatim>\<open>re.I\<close> in the plain text.\<close>

definition FIRSTHAND_PATTERNS :: "re list" where
  \<open>FIRSTHAND_PATTERNS =
    [ \<comment> \<open>\<^verbatim>\<open>\b(I|we)\s+(tested|tried|used|measured|compared|built|installed|configured)\b\<close>\<close>
      cat [Bnd, alts [lit ''I'', lit ''we''], ws1,
           alts [lit ''tested'', lit ''tried'', lit ''used'', lit ''measured'', lit ''compared'',
                 lit ''built'', lit ''installed'', lit ''configured''],
           Bnd],
      \<comment> \<open>\<^verbatim>\<open>\b(in\s+my|in\s+our)\s+experience\b\<close>\<close>
      cat [Bnd, alts [cat [lit ''in'', ws1, lit ''my''], cat [lit ''in'', ws1, lit ''our'']], ws1,
           lit ''experience'', Bnd],
      \<comment> \<open>\<^verbatim>\<open>\bwhat\s+(surprised|failed|worked|broke)\b\<close>\<close>
      cat [Bnd, lit ''what'', ws1,
           alts [lit ''surprised'', lit ''failed'', lit ''worked'', lit ''broke''], Bnd],
      \<comment> \<open>\<^verbatim>\<open>\bwhat\s+I('d| would)\s+do\s+differently\b\<close>\<close>
      cat [Bnd, lit ''what'', ws1, lit ''I'', alts [lit '''d'', lit '' would''], ws1, lit ''do'',
           ws1, lit ''differently'', Bnd],
      \<comment> \<open>\<^verbatim>\<open>\bafter\s+\d+\s+(hours?|days?|weeks?|months?|years?)\s+of\s+(using|testing)\b\<close>\<close>
      cat [Bnd, lit ''after'', ws1, Many1 CDigit, ws1,
           alts [cat [lit ''hour'', opt_ch CHR ''s''], cat [lit ''day'', opt_ch CHR ''s''],
                 cat [lit ''week'', opt_ch CHR ''s''], cat [lit ''month'', opt_ch CHR ''s''],
                 cat [lit ''year'', opt_ch CHR ''s'']],
           ws1, lit ''of'', ws1, alts [lit ''using'', lit ''testing''], Bnd] ]\<close>

definition PROCEDURAL_DETAIL_PATTERNS :: "re list" where
  \<open>PROCEDURAL_DETAIL_PATTERNS =
    [ \<comment> \<open>\<^verbatim>\<open>\bstep\s+\d\b\<close>\<close>
      cat [Bnd, lit ''step'', ws1, dg, Bnd],
      \<comment> \<open>\<^verbatim>\<open>\b(first|then|next|finally),?\s+(I|we|you)\b\<close>\<close>
      cat [Bnd, alts [lit ''first'', lit ''then'', lit ''next'', lit ''finally''], opt_ch CHR '','',
           ws1, alts [lit ''I'', lit ''we'', lit ''you''], Bnd],
      \<comment> \<open>\<^verbatim>\<open>\b(setup|configuration|install)\s+(took|required|involved)\b\<close>\<close>
      cat [Bnd, alts [lit ''setup'', lit ''configuration'', lit ''install''], ws1,
           alts [lit ''took'', lit ''required'', lit ''involved''], Bnd] ]\<close>

text \<open>The quoted context of a match: \<^verbatim>\<open>text[max(0, m.start() - a):min(len(text), m.end() + b)].strip()\<close>.\<close>

definition context_of :: "string \<Rightarrow> nat \<times> nat \<Rightarrow> nat \<Rightarrow> nat \<Rightarrow> string" where
  "context_of txt m a b = strip (slice txt (fst m - a) (min (length txt) (snd m + b)))"

definition check_firsthand_language :: "ExtractedContent \<Rightarrow> SignalEvidence" where
  "check_firsthand_language c =
     (let txt = plain_text c;
          hits = concat (map (\<lambda>pat. case re_search True pat txt of
                                       None \<Rightarrow> []
                                     | Some m \<Rightarrow> [context_of txt m 30 30])
                             FIRSTHAND_PATTERNS);
          found = (0 < length hits);
          pts = min 4 (real (length hits) * 1)
      in signal_ev ''First-hand experience language'' found pts
           (case hits of [] \<Rightarrow> [] | h # _ \<Rightarrow> h) ''Body text''
           ''First-person procedural language signals real experience.'')"

text \<open>The loop that counts the patterns which match and keeps the context of the first
  match as a sample (a later one if the sample is still empty).\<close>

definition count_hits :: "re list \<Rightarrow> string \<Rightarrow> nat \<Rightarrow> nat \<Rightarrow> nat \<times> string" where
  "count_hits pats txt a b =
     fold (\<lambda>pat (hits, sample).
             case re_search True pat txt of
               None \<Rightarrow> (hits, sample)
             | Some m \<Rightarrow> (hits + 1, if sample = [] then context_of txt m a b else sample))
          pats (0, [])"

definition check_procedural_detail :: "ExtractedContent \<Rightarrow> SignalEvidence" where
  "check_procedural_detail c =
     (let (hits, sample) = count_hits PROCEDURAL_DETAIL_PATTERNS (plain_text c) 30 50;
          found = (0 < hits)
      in signal_ev ''Procedural / step-by-step detail'' found (min 3 (real hits * 1)) sample []
           ''Step-by-step detail suggests the author has performed the process.'')"

definition caveat_patterns :: "re list" where
  \<open>caveat_patterns =
    [ \<comment> \<open>\<^verbatim>\<open>\b(caveat|downside|limitation|drawback|trade.?off)\b\<close>\<close>
      cat [Bnd, alts [lit ''caveat'', lit ''downside'', lit ''limitation'', lit ''drawback'',
                      cat [lit ''trade'', Opt (Atom CAny), lit ''off'']], Bnd],
      \<comment> \<open>\<^verbatim>\<open>\b(however|but|on the other hand|that said)\b\<close>\<close>
      cat [Bnd, alts [lit ''however'', lit ''but'', lit ''on the other hand'', lit ''that said''], Bnd],
      \<comment> \<open>\<^verbatim>\<open>\b(didn't work|wasn't ideal|could be better)\b\<close>\<close>
      cat [Bnd, alts [lit ''didn't work'', lit ''wasn't ideal'', lit ''could be better''], Bnd] ]\<close>

definition check_caveats :: "ExtractedContent \<Rightarrow> SignalEvidence" where
  "check_caveats c =
     (let (hits, sample) = count_hits caveat_patterns (plain_text c) 40 60;
          found = (0 < hits)
      in signal_ev ''Real-world caveats and limitations'' found (min 3 (real hits * 0.75)) sample []
           ''Acknowledging limitations signals honest, real-world experience.'')"

definition check_original_media :: "ExtractedContent \<Rightarrow> SignalEvidence" where
  "check_original_media c =
     (let count = length (images c) in
      signal_ev ''Original images / media'' (0 < count) (min 3 (real count * 0.5))
        (str_nat count @ '' images found'') []
        ''Original photos or screenshots support first-hand experience.'')"

definition EXPERIENCE_CHECKS :: "(ExtractedContent \<Rightarrow> SignalEvidence) list" where
  "EXPERIENCE_CHECKS =
     [check_firsthand_language, check_procedural_detail, check_caveats, check_original_media]"

subsection \<open>Expertise checks\<close>

definition legal_terms :: "string list" where
  "legal_terms =
     [''statute'', ''regulation'', ''jurisdiction'', ''negligence'', ''liability'',
      ''comparative fault'', ''damages'', ''burden of proof'', ''discovery'',
      ''motion'', ''pleading'', ''tort'', ''breach'', ''fiduciary'']"

definition medical_terms :: "string list" where
  "medical_terms =
     [''diagnosis'', ''prognosis'', ''contraindication'', ''etiology'',
      ''pathology'', ''protocol'', ''clinical'']"

definition finance_terms :: "string list" where
  "finance_terms =
     [''amortization'', ''fiduciary'', ''portfolio'', ''diversification'',
      ''yield'', ''liquidity'', ''collateral'']"

definition check_terminology :: "ExtractedContent \<Rightarrow> SignalEvidence" where
  "check_terminology c =
     (let txt = lower (plain_text c);
          all_terms = legal_terms @ medical_terms @ finance_terms;
          hits = filter (\<lambda>t. sublist t txt) all_terms
      in signal_ev ''Domain-specific terminology'' (2 \<le> length hits)
           (min 4 (real (length hits) * 0.5)) (join '', '' (take 8 hits)) []
           ''Correct specialist terminology signals subject expertise.'')"

definition scope_patterns :: "re list" where
  \<open>scope_patterns =
    [ \<comment> \<open>\<^verbatim>\<open>\bthis\s+(applies|is\s+for|covers)\b\<close>\<close>
      cat [Bnd, lit ''this'', ws1,
           alts [lit ''applies'', cat [lit ''is'', ws1, lit ''for''], lit ''covers''], Bnd],
      \<comment> \<open>\<^verbatim>\<open>\b(consult|talk\s+to|speak\s+with)\s+(a|an|your)\s+(attorney|lawyer|doctor|advisor|professional)\b\<close>\<close>
      cat [Bnd, alts [lit ''consult'', cat [lit ''talk'', ws1, lit ''to''],
                      cat [lit ''speak'', ws1, lit ''with'']], ws1,
           alts [lit ''a'', lit ''an'', lit ''your''], ws1,
           alts [lit ''attorney'', lit ''lawyer'', lit ''doctor'', lit ''advisor'', lit ''professional''],
           Bnd],
      \<comment> \<open>\<^verbatim>\<open>\b(may\s+not\s+apply|varies\s+by|depends\s+on)\b\<close>\<close>
      cat [Bnd, alts [cat [lit ''may'', ws1, lit ''not'', ws1, lit ''apply''],
                      cat [lit ''varies'', ws1, lit ''by''], cat [lit ''depends'', ws1, lit ''on'']],
           Bnd],
      \<comment> \<open>\<^verbatim>\<open>\b(in\s+\w+\s+state|under\s+\w+\s+law)\b\<close>\<close>
      cat [Bnd, alts [cat [lit ''in'', ws1, Many1 CWord, ws1, lit ''state''],
                      cat [lit ''under'', ws1, Many1 CWord, ws1, lit ''law'']],
           Bnd],
      \<comment> \<open>\<^verbatim>\<open>\b(who\s+this\s+is\s+for|who\s+should)\b\<close>\<close>
      cat [Bnd, alts [cat [lit ''who'', ws1, lit ''this'', ws1, lit ''is'', ws1, lit ''for''],
                      cat [lit ''who'', ws1, lit ''should'']],
           Bnd] ]\<close>

definition check_scope_limits :: "ExtractedContent \<Rightarrow> SignalEvidence" where
  "check_scope_limits c =
     (let (hits, sample) = count_hits scope_patterns (plain_text c) 30 50
      in signal_ev ''Proper scoping and pro referrals'' (1 \<le> hits) (min 4 (real hits * 1)) sample []
           ''Scoping advice to the right audience and referring to professionals when appropriate signals expertise.'')"

definition check_depth :: "ExtractedContent \<Rightarrow> SignalEvidence" where
  "check_depth c =
     (let wc = word_count c;
          sec = length (sections c);
          good_depth = (800 \<le> wc \<and> 3 \<le> sec);
          great_depth = (1500 \<le> wc \<and> 5 \<le> sec);
          pts = (if great_depth then 2 else if good_depth then 1 else 0)
      in signal_ev ''Content depth (word count + structure)'' good_depth pts
           (str_int wc @ '' words, '' @ str_nat sec @ '' sections'') []
           ''Sufficient depth with clear structure shows topical command.'')"

definition check_internal_consistency :: "ExtractedContent \<Rightarrow> SignalEvidence" where
  "check_internal_consistency c =
     signal_ev ''Internal consistency'' True 1.5 [] []
       ''No obvious contradictions detected (deep check deferred to AI rater).''"

definition EXPERTISE_CHECKS :: "(ExtractedContent \<Rightarrow> SignalEvidence) list" where
  "EXPERTISE_CHECKS =
     [check_terminology, check_scope_limits, check_depth, check_internal_consistency]"

subsection \<open>Authoritativeness checks\<close>

definition check_author_present :: "ExtractedContent \<Rightarrow> SignalEvidence" where
  "check_author_present c =
     signal_ev ''Author name present'' (truthy (au_name (author c))) 2
       (or_empty (au_name (author c))) []
       ''Named authorship establishes accountability.''"

definition check_author_bio :: "ExtractedContent \<Rightarrow> SignalEvidence" where
  "check_author_bio c =
     signal_ev ''Author bio with credentials'' (truthy (au_bio (author c))) 3
       (take 200 (or_empty (au_bio (author c)))) []
       ''A bio with relevant background signals authority on the topic.''"

definition check_author_page :: "ExtractedContent \<Rightarrow> SignalEvidence" where
  "check_author_page c =
     signal_ev ''Dedicated author page'' (has_author_page (author c)) 2.5
       (or_empty (au_profile_url (author c))) []
       ''A dedicated author page lets readers verify credentials.''"

definition check_credentials :: "ExtractedContent \<Rightarrow> SignalEvidence" where
  "check_credentials c =
     signal_ev ''Professional credentials listed'' (truthy (au_credentials (author c))) 3
       (or_empty (au_credentials (author c))) []
       ''Explicit credentials (bar admissions, degrees, certifications) strengthen authority.''"

definition check_internal_linking :: "ExtractedContent \<Rightarrow> SignalEvidence" where
  "check_internal_linking c =
     (let count = length (internal_links c);
          pts = min 3 (real count * 0.3)
      in signal_ev ''Internal linking depth'' (3 \<le> count) pts
           (str_nat count @ '' internal links'') []
           ''Strong internal linking to related content shows topical ownership.'')"

definition check_attorney_roster :: "ExtractedContent \<Rightarrow> SignalEvidence" where
  "check_attorney_roster c =
     signal_ev ''Attorney roster / team page'' (has_attorney_roster (site_signals c)) 2 [] []
       ''An attorney roster with profile pages establishes firm credibility.''"

definition AUTHORITATIVENESS_CHECKS :: "(ExtractedContent \<Rightarrow> SignalEvidence) list" where
  "AUTHORITATIVENESS_CHECKS =
     [check_author_present, check_author_bio, check_author_page, check_credentials,
      check_internal_linking, check_attorney_roster]"

subsection \<open>The runner\<close>

text \<open>\<^verbatim>\<open>round(x, 1)\<close>, on the reals: the nearest tenth, a tie going to the even tenth.\<close>

definition round_half_even :: "real \<Rightarrow> int" where
  "round_half_even y =
     (let f = \<lfloor>y\<rfloor>; d = y - of_int f in
      if d < 1 / 2 then f else if 1 / 2 < d then f + 1 else if even f then f else f + 1)"

definition round1 :: "real \<Rightarrow> real" where
  "round1 x = of_int (round_half_even (x * 10)) / 10"

definition run_checks ::
  "ExtractedContent \<Rightarrow> (ExtractedContent \<Rightarrow> SignalEvidence) list \<Rightarrow> string \<Rightarrow> real \<Rightarrow> DimensionScore" where
  "run_checks content checks name max_pts =
     (let signals = map (\<lambda>check. check content) checks;
          raw = sum_list (map ev_points signals);
          score = (if 0 < max_pts then min 25 ((raw / max_pts) * 25) else 0)
      in \<lparr> ds_name = name, ds_score = round1 score, max_score = 25, ds_signals = signals,
           ds_summary = [] \<rparr>)"

text \<open>The result is the dictionary with the four keys; the risk tier and the preset are
  parameters that the function does not read.\<close>

definition run_rules_engine ::
  "ExtractedContent \<Rightarrow> YMYLRisk \<Rightarrow> ContentPreset \<Rightarrow> (string \<rightharpoonup> DimensionScore)" where
  "run_rules_engine content risk preset =
     [''trust'' \<mapsto> run_checks content TRUST_CHECKS ''Trust'' 18,
      ''experience'' \<mapsto> run_checks content EXPERIENCE_CHECKS ''Experience'' 13,
      ''expertise'' \<mapsto> run_checks content EXPERTISE_CHECKS ''Expertise'' 12,
      ''authoritativeness'' \<mapsto> run_checks content AUTHORITATIVENESS_CHECKS ''Authoritativeness'' 15.5]"

section \<open>Presets (app/scoring/presets.py)\<close>

record PresetConfig =
  experience_weight :: real
  expertise_weight :: real
  authoritativeness_weight :: real
  trust_weight :: real
  required_signals :: "string list"
  pc_label :: string

text \<open>The dash of the labels is the character U+2014, here its three UTF-8 bytes.\<close>

definition em_dash :: string where
  "em_dash = [CHR 0xE2, CHR 0x80, CHR 0x94]"

definition general_config :: PresetConfig where
  "general_config =
     \<lparr> experience_weight = 20, expertise_weight = 25, authoritativeness_weight = 25,
       trust_weight = 30, required_signals = [], pc_label = ''General content'' \<rparr>"

definition PRESET_CONFIGS :: "(ContentPreset \<times> PresetConfig) list" where
  "PRESET_CONFIGS =
    [(GENERAL, general_config),
     (LEGAL_PRACTICE_AREA,
      \<lparr> experience_weight = 15, expertise_weight = 25, authoritativeness_weight = 20,
        trust_weight = 40,
        required_signals =
          [''Disclaimer / legal notice present'', ''Author bio with credentials'',
           ''Professional credentials listed'', ''Dates shown (published / updated)'',
           ''Outbound citation count and quality'', ''Proper scoping and pro referrals''],
        pc_label = ''Legal '' @ em_dash @ '' Practice Area Page'' \<rparr>),
     (LEGAL_LOCATION,
      \<lparr> experience_weight = 10, expertise_weight = 25, authoritativeness_weight = 25,
        trust_weight = 40,
        required_signals =
          [''Disclaimer / legal notice present'', ''Contact information present'',
           ''Author bio with credentials''],
        pc_label = ''Legal '' @ em_dash @ '' Location Page'' \<rparr>),
     (LEGAL_FAQ,
      \<lparr> experience_weight = 10, expertise_weight = 30, authoritativeness_weight = 20,
        trust_weight = 40,
        required_signals =
          [''Disclaimer / legal notice present'', ''Proper scoping and pro referrals'',
           ''Dates shown (published / updated)''],
        pc_label = ''Legal '' @ em_dash @ '' FAQ'' \<rparr>),
     (LEGAL_GUIDE,
      \<lparr> experience_weight = 15, expertise_weight = 25, authoritativeness_weight = 20,
        trust_weight = 40,
        required_signals =
          [''Disclaimer / legal notice present'', ''Outbound citation count and quality'',
           ''Author bio with credentials'', ''Dates shown (published / updated)'',
           ''Proper scoping and pro referrals''],
        pc_label = ''Legal '' @ em_dash @ '' Long Guide'' \<rparr>),
     (LEGAL_CASE_RESULTS,
      \<lparr> experience_weight = 10, expertise_weight = 20, authoritativeness_weight = 25,
        trust_weight = 45,
        required_signals =
          [''Disclaimer / legal notice present'', ''Author bio with credentials''],
        pc_label = ''Legal '' @ em_dash @ '' Case Results / Testimonials'' \<rparr>),
     (MEDICAL,
      \<lparr> experience_weight = 15, expertise_weight = 30, authoritativeness_weight = 15,
        trust_weight = 40,
        required_signals =
          [''Author bio with credentials'', ''Outbound citation count and quality'',
           ''Dates shown (published / updated)'', ''Proper scoping and pro referrals''],
        pc_label = ''Medical content'' \<rparr>),
     (FINANCE,
      \<lparr> experience_weight = 15, expertise_weight = 30, authoritativeness_weight = 20,
        trust_weight = 35,
        required_signals =
          [''Author bio with credentials'', ''Outbound citation count and quality'',
           ''Dates shown (published / updated)''],
        pc_label = ''Financial content'' \<rparr>),
     (PRODUCT_REVIEW,
      \<lparr> experience_weight = 35, expertise_weight = 20, authoritativeness_weight = 15,
        trust_weight = 30,
        required_signals =
          [''First-hand experience language'', ''Original images / media'',
           ''Affiliate / advertising disclosure''],
        pc_label = ''Product Review'' \<rparr>),
     (DIY_TUTORIAL,
      \<lparr> experience_weight = 35, expertise_weight = 25, authoritativeness_weight = 10,
        trust_weight = 30,
        required_signals =
          [''First-hand experience language'', ''Procedural / step-by-step detail'',
           ''Original images / media''],
        pc_label = ''DIY Tutorial'' \<rparr>)]"

text \<open>\<^verbatim>\<open>PRESET_CONFIGS.get(preset, PRESET_CONFIGS[ContentPreset.GENERAL])\<close>.\<close>

definition get_preset_config :: "ContentPreset \<Rightarrow> PresetConfig" where
  "get_preset_config preset =
     (case map_of PRESET_CONFIGS preset of None \<Rightarrow> general_config | Some cfg \<Rightarrow> cfg)"

text \<open>The value of the enum member, and \<^verbatim>\<open>preset.value.startswith("legal")\<close>.\<close>

fun preset_value :: "ContentPreset \<Rightarrow> string" where
  "preset_value GENERAL = ''general''"
| "preset_value LEGAL_PRACTICE_AREA = ''legal_practice_area''"
| "preset_value LEGAL_LOCATION = ''legal_location''"
| "preset_value LEGAL_FAQ = ''legal_faq''"
| "preset_value LEGAL_GUIDE = ''legal_guide''"
| "preset_value LEGAL_CASE_RESULTS = ''legal_case_results''"
| "preset_value MEDICAL = ''medical''"
| "preset_value FINANCE = ''finance''"
| "preset_value PRODUCT_REVIEW = ''product_review''"
| "preset_value DIY_TUTORIAL = ''diy_tutorial''"

definition is_legal_preset :: "ContentPreset \<Rightarrow> bool" where
  "is_legal_preset preset = prefix ''legal'' (preset_value preset)"

section \<open>The advisory rater (app/scoring/model\_rater.py)\<close>

text \<open>
  The response of the service, after \<^verbatim>\<open>json.loads\<close>, as \<^verbatim>\<open>_parse_model_response\<close> reads it: a
  dictionary from dimension names to blocks; a block has an optional list of signals and an
  optional summary; a signal has five optional fields. A field that is absent is \<open>None\<close>
  and takes the default of the \<^verbatim>\<open>.get\<close> that reads it. The points are the number that
  \<^verbatim>\<open>float(...)\<close> returns. On a response of any other shape the source raises; inside
  \<^verbatim>\<open>run_model_rater\<close> that is a failed call.
\<close>

record RawSignal =
  rs_signal :: "string option"
  rs_found :: "bool option"
  rs_points :: "real option"
  rs_quote :: "string option"
  rs_explanation :: "string option"

record RawBlock =
  rb_signals :: "RawSignal list option"
  rb_summary :: "string option"

definition upper_ch :: "char \<Rightarrow> char" where
  "upper_ch c =
     (case map_of (zip ''abcdefghijklmnopqrstuvwxyz'' ''ABCDEFGHIJKLMNOPQRSTUVWXYZ'') c of
        None \<Rightarrow> c
      | Some d \<Rightarrow> d)"

text \<open>\<^verbatim>\<open>s.capitalize()\<close>.\<close>

definition capitalize :: "string \<Rightarrow> string" where
  "capitalize s = (case s of [] \<Rightarrow> [] | c # cs \<Rightarrow> upper_ch c # lower cs)"

definition dimension_keys :: "string list" where
  "dimension_keys = [''experience'', ''expertise'', ''authoritativeness'', ''trust'']"

definition parse_signal :: "RawSignal \<Rightarrow> SignalEvidence" where
  "parse_signal s =
     \<lparr> ev_signal = (case rs_signal s of None \<Rightarrow> [] | Some n \<Rightarrow> n),
       ev_found = (case rs_found s of None \<Rightarrow> False | Some b \<Rightarrow> b),
       ev_quote = take 300 (case rs_quote s of None \<Rightarrow> [] | Some q \<Rightarrow> q),
       ev_location = [],
       ev_points = min 4 (case rs_points s of None \<Rightarrow> 0 | Some p \<Rightarrow> p),
       ev_explanation = (case rs_explanation s of None \<Rightarrow> [] | Some e \<Rightarrow> e) \<rparr>"

definition parse_block :: "string \<Rightarrow> RawBlock \<Rightarrow> DimensionScore" where
  "parse_block dimn block =
     (let signals = map parse_signal (case rb_signals block of None \<Rightarrow> [] | Some ss \<Rightarrow> ss);
          raw_pts = sum_list (map ev_points signals);
          max_possible = (if signals \<noteq> [] then real (length signals) * 4 else 1);
          score = (if 0 < max_possible then min 25 ((raw_pts / max_possible) * 25) else 0)
      in \<lparr> ds_name = capitalize dimn, ds_score = round1 score, max_score = 25,
           ds_signals = signals,
           ds_summary = (case rb_summary block of None \<Rightarrow> [] | Some t \<Rightarrow> t) \<rparr>)"

definition empty_block :: RawBlock where
  "empty_block = \<lparr> rb_signals = None, rb_summary = None \<rparr>"

definition parse_model_response :: "(string \<rightharpoonup> RawBlock) \<Rightarrow> (string \<rightharpoonup> DimensionScore)" where
  "parse_model_response data =
     fold (\<lambda>dimn result.
             result(dimn \<mapsto> parse_block dimn (case data dimn of None \<Rightarrow> empty_block | Some b \<Rightarrow> b)))
          dimension_keys Map.empty"

text \<open>
  \<^verbatim>\<open>run_model_rater\<close>: without an API key there is no call; a call that fails in any way
  (transport, time-out, a response that is not the expected JSON) gives \<^verbatim>\<open>None\<close>; a call
  that answers is parsed. The outcome of the call is a parameter.
\<close>

datatype service_outcome = Failed | Responded "string \<rightharpoonup> RawBlock"

definition run_model_rater :: "string \<Rightarrow> service_outcome \<Rightarrow> (string \<rightharpoonup> DimensionScore) option" where
  "run_model_rater api_key outcome =
     (if api_key = [] then None
      else case outcome of Failed \<Rightarrow> None | Responded data \<Rightarrow> Some (parse_model_response data))"

section \<open>The combined scorer (app/scoring/scorer.py)\<close>

definition default_dimension :: "string \<Rightarrow> DimensionScore" where
  "default_dimension n =
     \<lparr> ds_name = n, ds_score = 0, max_score = 25, ds_signals = [], ds_summary = [] \<rparr>"

text \<open>The body of the loop of \<^verbatim>\<open>_merge_dimensions\<close>: the blended score of one dimension.\<close>

definition merge_one ::
  "(string \<rightharpoonup> DimensionScore) \<Rightarrow> (string \<rightharpoonup> DimensionScore) \<Rightarrow> real \<Rightarrow> string \<Rightarrow> DimensionScore" where
  "merge_one rules model rules_weight dimn =
     (let model_weight = 1 - rules_weight;
          r = (case rules dimn of None \<Rightarrow> default_dimension (capitalize dimn) | Some d \<Rightarrow> d);
          m = (case model dimn of None \<Rightarrow> default_dimension (capitalize dimn) | Some d \<Rightarrow> d);
          blended_score = round1 (ds_score r * rules_weight + ds_score m * model_weight)
      in \<lparr> ds_name = capitalize dimn, ds_score = blended_score, max_score = 25,
           ds_signals = ds_signals r @ ds_signals m,
           ds_summary = (if ds_summary m \<noteq> [] then ds_summary m else ds_summary r) \<rparr>)"

definition merge_dimensions ::
  "(string \<rightharpoonup> DimensionScore) \<Rightarrow> (string \<rightharpoonup> DimensionScore) option \<Rightarrow> real
     \<Rightarrow> (string \<rightharpoonup> DimensionScore)" where
  "merge_dimensions rules model rules_weight =
     (case model of
        None \<Rightarrow> rules
      | Some model' \<Rightarrow>
          fold (\<lambda>dimn merged. merged(dimn \<mapsto> merge_one rules model' rules_weight dimn))
               dimension_keys Map.empty)"

text \<open>\<^verbatim>\<open>_compute_overall\<close> reads the four keys with \<^verbatim>\<open>dims[...]\<close>; a missing key raises
  \<^verbatim>\<open>KeyError\<close>, here the result \<open>None\<close>.\<close>

definition compute_overall :: "(string \<rightharpoonup> DimensionScore) \<Rightarrow> ContentPreset \<Rightarrow> real option" where
  "compute_overall dims preset =
     (let config = get_preset_config preset in
      case (dims ''experience'', dims ''expertise'', dims ''authoritativeness'', dims ''trust'') of
        (Some ex, Some ep, Some au, Some tr) \<Rightarrow>
          (let weighted = ds_score ex * (experience_weight config / 25)
                        + ds_score ep * (expertise_weight config / 25)
                        + ds_score au * (authoritativeness_weight config / 25)
                        + ds_score tr * (trust_weight config / 25)
           in Some (round1 (min 100 (max 0 weighted))))
      | _ \<Rightarrow> None)"

text \<open>Steps 3 to 6 of \<^verbatim>\<open>score_content\<close>: the rule checks, the advisory rater, the merge with
  the default weight 0.6, and the overall score.\<close>

definition score_dimensions ::
  "ExtractedContent \<Rightarrow> YMYLRisk \<Rightarrow> ContentPreset \<Rightarrow> string \<Rightarrow> service_outcome
     \<Rightarrow> (string \<rightharpoonup> DimensionScore) \<times> real option" where
  "score_dimensions content risk preset api_key outcome =
     (let rules_scores = run_rules_engine content risk preset;
          model_scores = run_model_rater api_key outcome;
          merged = merge_dimensions rules_scores model_scores 0.6;
          overall = compute_overall merged preset
      in (merged, overall))"

section \<open>The compliance scanner (app/analysis/compliance.py)\<close>

text \<open>An entry of \<^verbatim>\<open>RULE_71_PATTERNS\<close>: pattern, severity, rule, explanation, suggested fix.
  The patterns are searched with \<^verbatim>\<open>re.IGNORECASE\<close> in the text of a section.\<close>

type_synonym rule_entry = "re \<times> string \<times> string \<times> string \<times> string"

definition guarantee_pattern :: re where
  \<open>guarantee_pattern =
     \<comment> \<open>\<^verbatim>\<open>\b(we\s+)?guarantee[ds]?\b\<close>\<close>
     cat [Bnd, Opt (cat [lit ''we'', ws1]), lit ''guarantee'',
          Opt (Atom (CUnion (CChar CHR ''d'') (CChar CHR ''s''))), Bnd]\<close>

definition RULE_71_PATTERNS :: "rule_entry list" where
  \<open>RULE_71_PATTERNS =
    [ (guarantee_pattern,
       ''high'', ''Rule 7.1(a)'',
       ''Guarantee language about legal outcomes is misleading. No attorney can guarantee results.'',
       ''Remove "guarantee" or replace with "we work to achieve the best possible outcome."''),
      \<comment> \<open>\<^verbatim>\<open>\b(best|top|#\s*1|number\s*one|premier|leading)\s+(lawyer|attorney|firm|law\s*firm)\b\<close>\<close>
      (cat [Bnd,
            alts [lit ''best'', lit ''top'', cat [ch CHR ''#'', ws0, ch CHR ''1''],
                  cat [lit ''number'', ws0, lit ''one''], lit ''premier'', lit ''leading''],
            ws1,
            alts [lit ''lawyer'', lit ''attorney'', lit ''firm'', cat [lit ''law'', ws0, lit ''firm'']],
            Bnd],
       ''high'', ''Rule 7.1(a)'',
       ''Superlative claims about legal services require substantiation and can mislead potential clients.'',
       ''Add substantiation (e.g., award name, ranking source) or soften to "experienced" / "dedicated."''),
      \<comment> \<open>\<^verbatim>\<open>\b(expert|specialist)\s+(in|at|on)\b\<close>\<close>
      (cat [Bnd, alts [lit ''expert'', lit ''specialist''], ws1,
            alts [lit ''in'', lit ''at'', lit ''on''], Bnd],
       ''medium'', ''Rule 7.1(a)'',
       ''"Expert" or "specialist" claims may be misleading unless supported by board certification or recognized specialization.'',
       ''Replace with specific credentials or use "experienced in" / "focused on" instead.''),
      \<comment> \<open>\<^verbatim>\<open>(\$[\d,]+(?:\.\d+)?\s*(million|thousand|settlement|verdict))\<close>\<close>
      (cat [ch CHR ''$'', Many1 (CUnion CDigit (CChar CHR '','')),
            Opt (cat [ch CHR ''.'', Many1 CDigit]), ws0,
            alts [lit ''million'', lit ''thousand'', lit ''settlement'', lit ''verdict'']],
       ''high'', ''Rule 7.1(b)'',
       ''Specific dollar amounts for case results can mislead if presented without a disclaimer that results vary.'',
       ''Add: "Past results do not guarantee future outcomes. Every case is different."''),
      \<comment> \<open>\<^verbatim>\<open>\b(no\s+fee|free\s+consult|free\s+case\s+review|no\s+cost|pay\s+nothing)\b\<close>\<close>
      (cat [Bnd,
            alts [cat [lit ''no'', ws1, lit ''fee''], cat [lit ''free'', ws1, lit ''consult''],
                  cat [lit ''free'', ws1, lit ''case'', ws1, lit ''review''],
                  cat [lit ''no'', ws1, lit ''cost''], cat [lit ''pay'', ws1, lit ''nothing'']],
            Bnd],
       ''medium'', ''Rule 7.1(b)'',
       ''"No fee" claims need conditions stated: contingency basis, costs vs. fees, what's actually free.'',
       ''Add conditions: "No attorney fee unless we recover compensation. Client may be responsible for case costs."''),
      \<comment> \<open>\<^verbatim>\<open>\byou\s+(will|are\s+going\s+to)\s+(win|recover|get|receive|obtain)\b\<close>\<close>
      (cat [Bnd, lit ''you'', ws1,
            alts [lit ''will'', cat [lit ''are'', ws1, lit ''going'', ws1, lit ''to'']], ws1,
            alts [lit ''win'', lit ''recover'', lit ''get'', lit ''receive'', lit ''obtain''], Bnd],
       ''high'', ''Rule 7.1(a)'',
       ''Promising specific outcomes is misleading. Outcomes depend on facts and law.'',
       ''Replace with "you may be entitled to" or "we will pursue the maximum recovery available."''),
      \<comment> \<open>\<^verbatim>\<open>\b(always|never)\s+(win|lose|recover|get|result|succeed)\b\<close>\<close>
      (cat [Bnd, alts [lit ''always'', lit ''never''], ws1,
            alts [lit ''win'', lit ''lose'', lit ''recover'', lit ''get'', lit ''result'', lit ''succeed''],
            Bnd],
       ''high'', ''Rule 7.1(a)'',
       ''Absolute outcome language is inherently misleading in legal contexts.'',
       ''Replace with conditional language that acknowledges case-specific factors.''),
      \<comment> \<open>\<^verbatim>\<open>\b(client\s+review|testimonial|what\s+our\s+clients\s+say)\b\<close>\<close>
      (cat [Bnd,
            alts [cat [lit ''client'', ws1, lit ''review''], lit ''testimonial'',
                  cat [lit ''what'', ws1, lit ''our'', ws1, lit ''clients'', ws1, lit ''say'']],
            Bnd],
       ''medium'', ''Rule 7.1(b)'',
       ''Client testimonials may create unjustified expectations about results. Many jurisdictions require disclaimers.'',
       ''Add: "Client testimonials reflect individual experiences and do not guarantee similar outcomes."''),
      \<comment> \<open>\<^verbatim>\<open>\b(connections?\s+(?:to|with)\s+(?:the\s+)?(?:court|judge)|inside\s+knowledge)\b\<close>\<close>
      (cat [Bnd,
            alts [cat [lit ''connection'', opt_ch CHR ''s'', ws1, alts [lit ''to'', lit ''with''], ws1,
                       Opt (cat [lit ''the'', ws1]), alts [lit ''court'', lit ''judge'']],
                  cat [lit ''inside'', ws1, lit ''knowledge'']],
            Bnd],
       ''high'', ''Rule 7.1(a) / Rule 8.4'',
       ''Implying special influence with courts or judges is misleading and may violate ethics rules.'',
       ''Remove any language implying special access or influence.'') ]\<close>

text \<open>The flag of one match: the matched text with up to 50 characters on either side,
  between two ellipses.\<close>

definition flag_of :: "string \<Rightarrow> string \<Rightarrow> rule_entry \<Rightarrow> nat \<times> nat \<Rightarrow> ComplianceFlag" where
  "flag_of txt heading entry m =
     (case entry of (pattern, severity, rule, explanation, fix) \<Rightarrow>
        let context_start = fst m - 50;
            context_end = min (length txt) (snd m + 50);
            context = ''...'' @ slice txt context_start context_end @ ''...''
        in \<lparr> cf_rule = rule, cf_severity = severity, cf_text = strip context,
             cf_location = heading, cf_explanation = explanation, cf_fix = fix \<rparr>)"

definition entry_flags :: "string \<Rightarrow> string \<Rightarrow> rule_entry \<Rightarrow> ComplianceFlag list" where
  "entry_flags txt heading entry =
     map (flag_of txt heading entry) (finditer True (fst entry) txt)"

definition section_flags :: "ContentSection \<Rightarrow> ComplianceFlag list" where
  "section_flags section =
     (let txt = cs_text section;
          heading = (if cs_heading section \<noteq> [] then cs_heading section
                     else ''Section '' @ str_int (cs_index section + 1))
      in concat (map (entry_flags txt heading) RULE_71_PATTERNS))"

text \<open>The loop that drops a flag whose first 80 characters of text were seen before.\<close>

fun dedup_flags :: "string set \<Rightarrow> ComplianceFlag list \<Rightarrow> ComplianceFlag list" where
  "dedup_flags seen [] = []"
| "dedup_flags seen (f # fs) =
     (let key = take 80 (cf_text f) in
      if key \<in> seen then dedup_flags seen fs else f # dedup_flags (insert key seen) fs)"

definition scan_compliance :: "ExtractedContent \<Rightarrow> ComplianceFlag list" where
  "scan_compliance content =
     dedup_flags {} (concat (map section_flags (sections content)))"

section \<open>The recommendation engine (app/recommendations/engine.py)\<close>

subsection \<open>The template library\<close>

definition attorney_review_block :: "string \<Rightarrow> string" where
  "attorney_review_block author_name =
     ''Reviewed by '' @ author_name @ '', [Title]. Licensed in [State]. Last reviewed on [Date].''"

definition scope_jurisdiction_block :: string where
  "scope_jurisdiction_block =
     ''This page covers general legal information in [State]. Rules can change by county, court, and the specific facts of your case.''"

definition no_legal_advice_block :: string where
  "no_legal_advice_block =
     ''This information is not legal advice and does not create an attorney-client relationship. Talk with a lawyer about your specific facts.''"

definition sources_block :: string where
  "sources_block = ''Sources: [State statute link], [court rule link], [agency guidance link]''"

definition how_we_built_block :: string where
  "how_we_built_block =
     ''We built this guide from current statutes and court rules, plus our case intake patterns. We update it when deadlines or rules change.''"

definition editorial_note_block :: "string \<Rightarrow> string" where
  "editorial_note_block reviewer =
     ''Editorially reviewed by '' @ reviewer @ ''. Last reviewed on [Date]. We follow our editorial guidelines for accuracy.''"

definition author_bio_block :: string where
  "author_bio_block =
     ''[Author Name] is a [Title/Role] with [X years] of experience in [practice area / specialty]. [He/She/They] [is/are] licensed in [State] and [has/have] handled [area of work]. Contact: [email / phone].''"

definition how_we_tested_block :: string where
  "how_we_tested_block =
     ''How we tested: We [tested/reviewed/evaluated] [X products/services] over [time period]. We [describe methodology]. Our evaluation criteria included [criteria list].''"

definition who_this_is_for_block :: string where
  "who_this_is_for_block =
     ''Who this is for: This guide is designed for [target audience]. If you [specific condition], you should consult a [professional type] instead.''"

subsection \<open>Missing signals\<close>

text \<open>A template: title, why it matters, copy block, effort, impact, points, scope. The
  dictionary \<^verbatim>\<open>templates\<close> is the list of its items, in the order of the source.\<close>

type_synonym template = "string \<times> string \<times> string \<times> EffortLevel \<times> ImpactLevel \<times> real \<times> FixScope"

definition templates :: "bool \<Rightarrow> (string \<times> template) list" where
  \<open>templates is_legal =
    [ (''Disclaimer / legal notice present'',
       (''Add a legal disclaimer'',
        ''Legal content without disclaimers can mislead readers and create liability risk.'',
        no_legal_advice_block, EASY, HIGH, 4, PAGE_LEVEL)),
      (''About page linked'',
       (''Add or link an About page'',
        ''An About page establishes site identity and ownership '' @ em_dash @ '' a baseline trust signal.'',
        [], MODERATE, HIGH, 3, NEW_PAGE)),
      (''Contact information present'',
       (''Add visible contact information'',
        ''Readers and raters look for real contact paths (phone, email, address) to verify legitimacy.'',
        [], EASY, HIGH, 3, GLOBAL)),
      (''Privacy policy linked'',
       (''Add a privacy policy link'',
        ''A privacy policy is a baseline expectation for any professional website.'',
        [], EASY, MEDIUM, 1.5, GLOBAL)),
      (''Terms of service linked'',
       (''Add terms of service link'',
        ''Terms of service clarify the site-user relationship.'',
        [], EASY, LOW, 1, GLOBAL)),
      (''Editorial / review policy'',
       (''Add an editorial policy page'',
        ''An editorial policy shows content goes through a review process, boosting Trust.'',
        editorial_note_block ''[Reviewer Name]'', MODERATE, HIGH, 3.5, NEW_PAGE)),
      (''Dates shown (published / updated)'',
       (''Add publish and update dates'',
        ''Visible dates let readers judge freshness. Undated content looks unmaintained.'',
        ''Published: [Date] | Last updated: [Date]'', EASY, HIGH, 3, PAGE_LEVEL)),
      (''Outbound citation count and quality'',
       (''Add authoritative citations to support claims'',
        ''Unsupported claims weaken trust. Link to statutes, regulations, .gov/.edu sources.'',
        (if is_legal then sources_block
         else ''Sources: [primary source link], [authoritative source link]''),
        MODERATE, HIGH, 4, PAGE_LEVEL)),
      (''Affiliate / advertising disclosure'',
       (''Add an affiliate / advertising disclosure'',
        ''FTC guidelines require disclosure when content is monetized through affiliate links or sponsorship.'',
        ''Disclosure: This page may contain affiliate links. We may earn a commission at no extra cost to you.'',
        EASY, MEDIUM, 2, PAGE_LEVEL)),
      (''Structured data (schema.org)'',
       (''Add schema.org structured data'',
        ''Structured data helps search engines understand page purpose and display rich results.'',
        [], MODERATE, MEDIUM, 2, GLOBAL)),
      (''First-hand experience language'',
       (''Add first-hand experience details'',
        ''Content reads as generic advice. Add specific details about what you tested, tried, or observed.'',
        how_we_tested_block, MODERATE, HIGH, 3.5, PAGE_LEVEL)),
      (''Procedural / step-by-step detail'',
       (''Add step-by-step procedural detail'',
        ''Readers trust content that walks them through real steps, not just theory.'',
        [], MODERATE, MEDIUM, 2.5, PAGE_LEVEL)),
      (''Real-world caveats and limitations'',
       (''Add caveats and honest limitations'',
        ''Content that acknowledges trade-offs and limitations reads as more credible.'',
        [], EASY, MEDIUM, 2, PAGE_LEVEL)),
      (''Original images / media'',
       (''Add original images or screenshots'',
        ''Original visuals support experience claims and increase engagement.'',
        [], MODERATE, MEDIUM, 2, PAGE_LEVEL)),
      (''Domain-specific terminology'',
       (''Use more precise domain terminology'',
        ''Generic language makes content look like it was written by a non-expert.'',
        [], EASY, MEDIUM, 2, PAGE_LEVEL)),
      (''Proper scoping and pro referrals'',
       (''Add audience scoping and professional referrals'',
        ''Tell readers who this is for and when to consult a professional. Critical for YMYL topics.'',
        (if \<not> is_legal then who_this_is_for_block
         else scope_jurisdiction_block @ [CHR 0x0A, CHR 0x0A] @ no_legal_advice_block),
        EASY, HIGH, 4, PAGE_LEVEL)),
      (''Content depth (word count + structure)'',
       (''Deepen the content with more sections'',
        ''The page is thin. Add sections that address edge cases, exceptions, and practical details.'',
        [], HEAVY, MEDIUM, 2.5, PAGE_LEVEL)),
      (''Author name present'',
       (''Add a visible author name'',
        ''Anonymous content on sensitive topics is a major trust red flag.'',
        [], EASY, HIGH, 3, PAGE_LEVEL)),
      (''Author bio with credentials'',
       (''Add an author bio with relevant credentials'',
        ''A bio with specific, relevant background signals that the author is qualified to write this.'',
        author_bio_block, EASY, HIGH, 4, PAGE_LEVEL)),
      (''Dedicated author page'',
       (''Create a dedicated author profile page'',
        ''A standalone author page lets readers (and Google) verify the author's identity and expertise.'',
        [], MODERATE, HIGH, 3.5, NEW_PAGE)),
      (''Professional credentials listed'',
       (''List professional credentials explicitly'',
        ''Credentials like bar admissions, licenses, and certifications should be stated clearly.'',
        ''[Author Name], Esq. '' @ em_dash @ '' Licensed in [State], [Bar Number]. [X] years practicing [area].'',
        EASY, HIGH, 4, PAGE_LEVEL)),
      (''Internal linking depth'',
       (''Add more internal links to related content'',
        ''Strong internal linking demonstrates topical coverage depth and helps readers navigate related guides.'',
        [], EASY, MEDIUM, 2, PAGE_LEVEL)),
      (''Attorney roster / team page'',
       (''Add or link an attorney team page'',
        ''A team page with attorney profiles establishes firm credibility and lets readers verify qualifications.'',
        [], MODERATE, HIGH, 3, NEW_PAGE)) ]\<close>

definition signal_to_recommendation ::
  "string \<Rightarrow> string \<Rightarrow> bool \<Rightarrow> ExtractedContent \<Rightarrow> Recommendation option" where
  "signal_to_recommendation signal_name dimension is_legal content =
     (case map_of (templates is_legal) signal_name of
        None \<Rightarrow> None
      | Some (title, why, copy, eff, imp, pts, scp) \<Rightarrow>
          Some \<lparr> rec_title = title, what_to_change = title, why_it_matters = why,
                 rec_where = (if sublist ''page'' (lower signal_name) \<or> sublist ''policy'' (lower signal_name)
                              then ''Page-level'' else ''Content body''),
                 rec_section_index = None, copy_block = copy, effort = eff, impact = imp,
                 rec_dimension = dimension, points_potential = pts, rec_scope = scp \<rparr>)"

text \<open>The body of the loop over the signals of one dimension: a signal that was found, or
  that has no template, gives nothing; a signal that the preset requires gives impact HIGH
  and two more points.\<close>

definition missing_signal_recs ::
  "PresetConfig \<Rightarrow> bool \<Rightarrow> ExtractedContent \<Rightarrow> string \<Rightarrow> SignalEvidence \<Rightarrow> Recommendation list" where
  "missing_signal_recs config is_legal content dim_name sig =
     (if ev_found sig then []
      else case signal_to_recommendation (ev_signal sig) dim_name is_legal content of
             None \<Rightarrow> []
           | Some r \<Rightarrow>
               if ev_signal sig \<in> set (required_signals config)
               then [r \<lparr> impact := HIGH, points_potential := points_potential r + 2 \<rparr>]
               else [r])"

definition recs_from_missing_signals ::
  "EEATScore \<Rightarrow> ExtractedContent \<Rightarrow> ContentPreset \<Rightarrow> Recommendation list" where
  "recs_from_missing_signals score content preset =
     (let config = get_preset_config preset;
          is_legal = is_legal_preset preset;
          all_dimensions = [(''Trust'', trust score), (''Experience'', experience score),
                            (''Expertise'', expertise score),
                            (''Authoritativeness'', authoritativeness score)]
      in concat (map (\<lambda>(dim_name, d).
                        concat (map (missing_signal_recs config is_legal content dim_name)
                                    (ds_signals d)))
                     all_dimensions))"

subsection \<open>Claims, compliance flags and the legal extras\<close>

text \<open>The quoted examples: \<^verbatim>\<open>"\n".join(f'- "{c.text[:120]}"' for c in cs[:5])\<close>.\<close>

definition examples_of :: "Claim list \<Rightarrow> string" where
  \<open>examples_of cs =
     join [CHR 0x0A] (map (\<lambda>c. ''- "'' @ take 120 (cl_text c) @ ''"'') (take 5 cs))\<close>

definition recs_from_claims :: "CitationAudit \<Rightarrow> bool \<Rightarrow> Recommendation list" where
  \<open>recs_from_claims audit is_legal =
     (let unsupp = filter (\<lambda>c. evidence_grade c = UNSUPPORTED) (claims audit);
          weak = filter (\<lambda>c. evidence_grade c = WEAKLY_SUPPORTED) (claims audit);
          overbroad = filter (\<lambda>c. evidence_grade c = NEEDS_QUALIFICATION) (claims audit)
      in (if unsupp \<noteq> [] then
            [\<lparr> rec_title = ''Add sources for '' @ str_nat (length unsupp) @ '' unsupported claim(s)'',
               what_to_change = ''Add credible citations near these claims'',
               why_it_matters = ''Unsupported claims weaken trust, especially on YMYL topics.'',
               rec_where = ''Multiple sections'', rec_section_index = None,
               copy_block = ''Claims needing sources:'' @ [CHR 0x0A] @ examples_of unsupp,
               effort = MODERATE, impact = HIGH, rec_dimension = ''Trust'',
               points_potential = min 5 (real (length unsupp) * 1), rec_scope = PAGE_LEVEL \<rparr>]
          else [])
       @ (if weak \<noteq> [] then
            [\<lparr> rec_title = ''Upgrade '' @ str_nat (length weak) @ '' weak citation(s)'',
               what_to_change = ''Replace blog/forum sources with primary or institutional sources'',
               why_it_matters = ''Low-authority sources don't support sensitive claims.'',
               rec_where = ''Multiple sections'', rec_section_index = None,
               copy_block = ''Replace sources from: '' @ join '', '' (take 5 (low_trust_sources audit)),
               effort = MODERATE, impact = MEDIUM, rec_dimension = ''Trust'',
               points_potential = min 3 (real (length weak) * 0.5), rec_scope = PAGE_LEVEL \<rparr>]
          else [])
       @ (if overbroad \<noteq> [] then
            [\<lparr> rec_title = ''Qualify '' @ str_nat (length overbroad) @ '' overbroad claim(s)'',
               what_to_change = ''Replace absolute language with scoped, conditional statements'',
               why_it_matters = ''Overbroad claims reduce credibility and can mislead readers.'',
               rec_where = ''Multiple sections'', rec_section_index = None,
               copy_block = ''Claims to qualify:'' @ [CHR 0x0A] @ examples_of overbroad
                 @ [CHR 0x0A, CHR 0x0A]
                 @ ''Replace 'always' / 'never' / 'guaranteed' with conditional language.'',
               effort = EASY, impact = HIGH, rec_dimension = ''Trust'',
               points_potential = min 4 (real (length overbroad) * 1), rec_scope = PAGE_LEVEL \<rparr>]
          else []))\<close>

definition rec_of_flag :: "ComplianceFlag \<Rightarrow> Recommendation" where
  "rec_of_flag flag =
     \<lparr> rec_title = ''Fix '' @ cf_rule flag @ '' issue: '' @ take 60 (cf_explanation flag),
       what_to_change = cf_explanation flag,
       why_it_matters = ''Violates '' @ cf_rule flag
         @ ''. This can create misleading impressions and pose ethical/legal risk.'',
       rec_where = cf_location flag, rec_section_index = None, copy_block = cf_fix flag,
       effort = EASY,
       impact = (if cf_severity flag = ''high'' then HIGH else MEDIUM),
       rec_dimension = ''Trust'',
       points_potential = (if cf_severity flag = ''high'' then 3 else 1.5),
       rec_scope = PAGE_LEVEL \<rparr>"

definition recs_from_compliance :: "ComplianceFlag list \<Rightarrow> Recommendation list" where
  "recs_from_compliance flags = map rec_of_flag flags"

definition attorney_review_rec :: Recommendation where
  \<open>attorney_review_rec =
     \<lparr> rec_title = ''Add attorney review line'',
       what_to_change = ''Add a 'Reviewed by [Attorney]' line with date'',
       why_it_matters = ''Attorney review signals editorial oversight '' @ em_dash
         @ '' a top trust signal for legal content.'',
       rec_where = ''Below the title or at the end of the article'', rec_section_index = None,
       copy_block = attorney_review_block ''[Attorney Name]'',
       effort = EASY, impact = HIGH, rec_dimension = ''Trust'', points_potential = 4,
       rec_scope = PAGE_LEVEL \<rparr>\<close>

definition how_built_rec :: Recommendation where
  \<open>how_built_rec =
     \<lparr> rec_title = ''Add "How we built this guide" section'',
       what_to_change = ''Explain the research methodology'',
       why_it_matters = ''Transparency about research process builds trust with readers and raters.'',
       rec_where = ''End of article, before sources'', rec_section_index = None,
       copy_block = how_we_built_block,
       effort = EASY, impact = MEDIUM, rec_dimension = ''Experience'', points_potential = 2.5,
       rec_scope = PAGE_LEVEL \<rparr>\<close>

definition recs_for_legal_extras :: "ExtractedContent \<Rightarrow> EEATScore \<Rightarrow> Recommendation list" where
  "recs_for_legal_extras content score =
     (if \<not> truthy (reviewed (dates content)) then [attorney_review_rec] else [])
   @ (let has_how_built = list_ex (\<lambda>s. sublist ''how we'' (lower (cs_text s))) (sections content)
      in if \<not> has_how_built then [how_built_rec] else [])"

subsection \<open>The ranked list\<close>

text \<open>The recommendations of the generators, in the order in which
  \<^verbatim>\<open>generate_recommendations\<close> collects them.\<close>

definition collected_recs ::
  "EEATScore \<Rightarrow> ExtractedContent \<Rightarrow> CitationAudit \<Rightarrow> ContentPreset \<Rightarrow> Recommendation list" where
  "collected_recs score content audit preset =
     (let is_legal = is_legal_preset preset in
        recs_from_missing_signals score content preset
      @ recs_from_claims audit is_legal
      @ recs_from_compliance (compliance_flags score)
      @ (if is_legal then recs_for_legal_extras content score else []))"

text \<open>The loop that keeps the first recommendation of each title.\<close>

fun dedup_titles :: "string set \<Rightarrow> Recommendation list \<Rightarrow> Recommendation list" where
  "dedup_titles seen [] = []"
| "dedup_titles seen (r # rs) =
     (if rec_title r \<in> seen then dedup_titles seen rs
      else r # dedup_titles (insert (rec_title r) seen) rs)"

text \<open>\<^verbatim>\<open>impact_order.get(r.impact, 2)\<close> and the sort key \<^verbatim>\<open>(rank, -points_potential)\<close>. The
  sort of Python is stable, as is \<open>sort_key\<close>.\<close>

fun impact_order :: "ImpactLevel \<Rightarrow> nat" where
  "impact_order HIGH = 0"
| "impact_order MEDIUM = 1"
| "impact_order LOW = 2"

definition rank_key :: "Recommendation \<Rightarrow> nat \<times> real" where
  "rank_key r = (impact_order (impact r), - points_potential r)"

definition generate_recommendations ::
  "EEATScore \<Rightarrow> ExtractedContent \<Rightarrow> CitationAudit \<Rightarrow> ContentPreset \<Rightarrow> YMYLRisk
     \<Rightarrow> Recommendation list" where
  "generate_recommendations score content audit preset risk =
     (let recs = collected_recs score content audit preset;
          unique = dedup_titles {} recs
      in sort_key rank_key unique)"

section \<open>Concrete inputs\<close>

text \<open>The content with every field at the default value of the data model, and a section
  with index 0 that holds a given text.\<close>

definition default_content :: ExtractedContent where
  "default_content =
     \<lparr> ec_title = [], meta_description = [], ec_url = None, ec_domain = None, raw_html = [],
       plain_text = [], word_count = 0, sections = [],
       author = \<lparr> au_name = None, au_bio = None, au_credentials = None, au_profile_url = None,
                  has_author_page = False \<rparr>,
       dates = \<lparr> published = None, updated = None, reviewed = None \<rparr>,
       outbound_links = [], internal_links = [], images = [],
       site_signals = \<lparr> has_about_page = False, has_contact_page = False,
                        has_privacy_policy = False, has_terms = False,
                        has_editorial_policy = False, has_corrections_policy = False,
                        has_attorney_roster = False, contact_paths = [] \<rparr>,
       has_schema_markup = False, schema_types = [], disclaimers = [], disclosure_texts = [] \<rparr>"

definition section_of_text :: "string \<Rightarrow> ContentSection" where
  "section_of_text t = \<lparr> cs_heading = [], cs_text = t, cs_level = 0, cs_index = 0 \<rparr>"

definition studies_sentence :: string where
  "studies_sentence = ''Studies show that you will always recover full compensation.''"

definition studies_content :: ExtractedContent where
  "studies_content = default_content \<lparr> sections := [section_of_text studies_sentence] \<rparr>"


definition forum_sentence :: string where
  "forum_sentence = ''According to a 2022 study, recovery rates average 40%.''"

definition forum_link :: LinkInfo where
  "forum_link =
     \<lparr> li_url = ''https://forum.example.com/thread/1'', anchor_text = ''2022 study'',
       is_external = True, li_domain = ''forum.example.com'', is_government = False,
       is_educational = False, is_broken = False \<rparr>"

definition forum_content :: ExtractedContent where
  "forum_content =
     default_content \<lparr> sections := [section_of_text forum_sentence],
                       outbound_links := [forum_link] \<rparr>"

definition hundred_sentence :: string where
  "hundred_sentence = ''Our clients recover 100% of the time.''"

definition hundred_content :: ExtractedContent where
  "hundred_content = default_content \<lparr> sections := [section_of_text hundred_sentence] \<rparr>"

text \<open>Two responses of the advisory service, each with one signal for one dimension: one
  that is reported as not found and carries 2 points, one that carries \<open>-4\<close> points.\<close>

definition unfound_response :: "string \<rightharpoonup> RawBlock" where
  "unfound_response =
     [''trust'' \<mapsto>
        \<lparr> rb_signals = Some [\<lparr> rs_signal = Some ''Sources cited'', rs_found = Some False,
                               rs_points = Some 2, rs_quote = Some [],
                               rs_explanation = Some ''No sources are cited.'' \<rparr>],
          rb_summary = Some ''Weak sourcing.'' \<rparr>]"

definition negative_response :: "string \<rightharpoonup> RawBlock" where
  "negative_response =
     [''experience'' \<mapsto>
        \<lparr> rb_signals = Some [\<lparr> rs_signal = Some ''Lived detail'', rs_found = Some True,
                               rs_points = Some (- 4), rs_quote = Some [],
                               rs_explanation = Some ''Reads as generic advice.'' \<rparr>],
          rb_summary = Some ''No lived experience.'' \<rparr>]"

text \<open>The score and the audit with every field at its default value, a score whose Trust
  dimension misses three signals, and a content whose only section says how something was
  tested.\<close>

definition default_score :: EEATScore where
  "default_score =
     \<lparr> overall = 0, experience = default_dimension ''Experience'',
       expertise = default_dimension ''Expertise'',
       authoritativeness = default_dimension ''Authoritativeness'',
       trust = default_dimension ''Trust'', ymyl_risk = RISK_LOW, preset_used = GENERAL,
       compliance_flags = [] \<rparr>"

definition default_audit :: CitationAudit where
  "default_audit =
     \<lparr> total_claims = 0, supported = 0, weakly_supported = 0, unsupported = 0,
       needs_qualification = 0, claims = [], low_trust_sources = [] \<rparr>"

definition sample_score :: EEATScore where
  "sample_score =
     default_score \<lparr> trust :=
       (default_dimension ''Trust'') \<lparr> ds_signals :=
          [check_terms default_content, check_privacy_policy default_content,
           check_about_page default_content, check_terms default_content] \<rparr> \<rparr>"

definition how_tested_content :: ExtractedContent where
  "how_tested_content =
     default_content \<lparr> sections := [section_of_text ''This is how we tested the product.''] \<rparr>"

section \<open>Properties of the claim audit\<close>

lemma low_trust_of_Nil [simp]: "low_trust_of [] = {}"
  by (simp add: low_trust_of_def)

lemma low_trust_of_append [simp]: "low_trust_of (xs @ ys) = low_trust_of xs \<union> low_trust_of ys"
  by (auto simp: low_trust_of_def)

lemma finite_low_trust_of [simp]: "finite (low_trust_of cs)"
  by (simp add: low_trust_of_def)

lemma audit_match_eq:
  "audit_match sec ls sen hit st =
     (fst st @ [claim_of sec ls sen hit], snd st \<union> low_trust_of [claim_of sec ls sen hit])"
  by (cases "grade_claim sen ls")
     (auto simp: audit_match_def claim_of_def Let_def low_trust_of_def)

lemma low_trust_of_Cons [simp]:
  "low_trust_of (x # xs) =
     (if evidence_grade x = WEAKLY_SUPPORTED \<and> truthy (nearest_citation x)
      then {the (nearest_citation x)} else {}) \<union> low_trust_of xs"
  by (simp add: low_trust_of_def)

lemma fold_audit_match:
  "fold (audit_match sec ls sen) hits st =
     (fst st @ map (claim_of sec ls sen) hits, snd st \<union> low_trust_of (map (claim_of sec ls sen) hits))"
  by (induction hits arbitrary: st) (simp_all add: audit_match_eq Un_assoc)

lemma audit_sentence_eq:
  "audit_sentence sec ls sen st =
     (fst st @ sentence_claims sec ls sen, snd st \<union> low_trust_of (sentence_claims sec ls sen))"
  by (simp add: audit_sentence_def sentence_claims_def fold_audit_match)

lemma fold_audit_sentence:
  "fold (audit_sentence sec ls) sens st =
     (fst st @ concat (map (sentence_claims sec ls) sens),
      snd st \<union> low_trust_of (concat (map (sentence_claims sec ls) sens)))"
  by (induction sens arbitrary: st) (simp_all add: audit_sentence_eq Un_assoc)

lemma audit_section_eq:
  "audit_section c sec st =
     (fst st @ section_claims c sec, snd st \<union> low_trust_of (section_claims c sec))"
  by (simp add: audit_section_def section_claims_def fold_audit_sentence)

lemma fold_audit_section:
  "fold (audit_section c) secs st =
     (fst st @ concat (map (section_claims c) secs),
      snd st \<union> low_trust_of (concat (map (section_claims c) secs)))"
  by (induction secs arbitrary: st) (simp_all add: audit_section_eq Un_assoc)

lemma claims_audit_claims:
  "claims (audit_claims c) = concat (map (section_claims c) (sections c))"
  by (simp add: audit_claims_def fold_audit_section)

lemma low_trust_sources_audit_claims:
  "low_trust_sources (audit_claims c) = sorted_list_of_set (low_trust_of (claims (audit_claims c)))"
  by (simp add: audit_claims_def fold_audit_section)

lemma claim_in_audit:
  "sec \<in> set (sections c) \<Longrightarrow> sen \<in> set (sentences_of (cs_text sec)) \<Longrightarrow>
   hit \<in> set (match_claim_type sen) \<Longrightarrow>
   claim_of sec (links_nearby_of c sec) sen hit \<in> set (claims (audit_claims c))"
  by (auto simp: claims_audit_claims section_claims_def sentence_claims_def)

lemma claim_in_auditD:
  "cl \<in> set (claims (audit_claims c)) \<Longrightarrow>
   \<exists>sec \<in> set (sections c). \<exists>hit \<in> set (match_claim_type (cl_text cl)).
     cl_text cl \<in> set (sentences_of (cs_text sec)) \<and>
     cl = claim_of sec (links_nearby_of c sec) (cl_text cl) hit"
proof -
  assume "cl \<in> set (claims (audit_claims c))"
  then obtain sec sen hit where sec: "sec \<in> set (sections c)"
    and sen: "sen \<in> set (sentences_of (cs_text sec))"
    and hit: "hit \<in> set (match_claim_type sen)"
    and cl: "cl = claim_of sec (links_nearby_of c sec) sen hit"
    by (auto simp: claims_audit_claims section_claims_def sentence_claims_def)
  from cl have "cl_text cl = sen" by (simp add: claim_of_def)
  with sec sen hit cl show ?thesis
    by (intro bexI [of _ sec] bexI [of _ hit]) simp_all
qed


lemma match_studies: "match_claim_type studies_sentence = [(STATISTIC, ''studies show'')]"
  unfolding studies_sentence_def by code_simp

lemma overbroad_studies: "is_overbroad studies_sentence"
  unfolding studies_sentence_def by code_simp

lemma sentences_studies: "sentences_of studies_sentence = [studies_sentence]"
  unfolding studies_sentence_def by code_simp

text \<open>
  Claim C1, as the program has it. In every content, a section whose sentences include
  \<^verbatim>\<open>Studies show that you will always recover full compensation.\<close> yields a Claim of type
  STATISTIC for that sentence, and every Claim made from the sentence has type STATISTIC
  (none has type OUTCOME: the word \<^verbatim>\<open>always\<close> stands between \<^verbatim>\<open>will\<close> and \<^verbatim>\<open>recover\<close>, so no
  outcome pattern matches). Its grade is NEEDS_QUALIFICATION with the fixed explanation,
  whatever links are associated with the section: with none, and with a first link to
  \<^verbatim>\<open>cdc.gov\<close>.
\<close>

theorem audit_studies_sentence:
  assumes "sec \<in> set (sections c)"
    and "studies_sentence \<in> set (sentences_of (cs_text sec))"
  shows "(\<exists>cl \<in> set (claims (audit_claims c)).
            cl_text cl = studies_sentence \<and> cl_section_index cl = cs_index sec
            \<and> claim_type cl = STATISTIC)
       \<and> (\<forall>cl \<in> set (claims (audit_claims c)).
            cl_text cl = studies_sentence \<longrightarrow>
              claim_type cl = STATISTIC \<and> evidence_grade cl = NEEDS_QUALIFICATION
              \<and> cl_explanation cl = overbroad_explanation)"
proof
  have "claim_of sec (links_nearby_of c sec) studies_sentence (STATISTIC, ''studies show'')
          \<in> set (claims (audit_claims c))"
    using assms by (intro claim_in_audit) (simp_all add: match_studies)
  then show "\<exists>cl \<in> set (claims (audit_claims c)).
            cl_text cl = studies_sentence \<and> cl_section_index cl = cs_index sec
            \<and> claim_type cl = STATISTIC"
    by (rule bexI [rotated]) (simp add: claim_of_def)
next
  show "\<forall>cl \<in> set (claims (audit_claims c)).
            cl_text cl = studies_sentence \<longrightarrow>
              claim_type cl = STATISTIC \<and> evidence_grade cl = NEEDS_QUALIFICATION
              \<and> cl_explanation cl = overbroad_explanation"
  proof (intro ballI impI)
    fix cl assume "cl \<in> set (claims (audit_claims c))" and t: "cl_text cl = studies_sentence"
    then obtain s h where "h \<in> set (match_claim_type studies_sentence)"
      and "cl = claim_of s (links_nearby_of c s) studies_sentence h"
      using claim_in_auditD [of cl c] by auto
    then show "claim_type cl = STATISTIC \<and> evidence_grade cl = NEEDS_QUALIFICATION
              \<and> cl_explanation cl = overbroad_explanation"
      by (simp add: match_studies claim_of_def overbroad_studies)
  qed
qed

text \<open>The theorem at the content whose only section holds the sentence.\<close>

theorem audit_studies_sentence_witness:
  "section_of_text studies_sentence \<in> set (sections studies_content)
   \<and> studies_sentence \<in> set (sentences_of (cs_text (section_of_text studies_sentence)))
   \<and> (\<exists>cl \<in> set (claims (audit_claims studies_content)).
          cl_text cl = studies_sentence \<and> cl_section_index cl = 0
          \<and> claim_type cl = STATISTIC \<and> evidence_grade cl = NEEDS_QUALIFICATION
          \<and> cl_explanation cl = overbroad_explanation)"
proof -
  have h1: "section_of_text studies_sentence \<in> set (sections studies_content)"
    by (simp add: studies_content_def)
  have h2: "studies_sentence \<in> set (sentences_of (cs_text (section_of_text studies_sentence)))"
    by (simp add: section_of_text_def sentences_studies)
  have "cs_index (section_of_text studies_sentence) = 0"
    by (simp add: section_of_text_def)
  with h1 h2 audit_studies_sentence [OF h1 h2] show ?thesis
    by auto
qed

lemma links_studies: "links_nearby_of studies_content (section_of_text studies_sentence) = []"
  by (simp add: links_nearby_of_def section_links_of_def studies_content_def default_content_def)

text \<open>
  Claim C1 as stated fails: for the content whose only section holds the sentence and
  which has no links, the audit makes one Claim, of type STATISTIC and of grade
  NEEDS_QUALIFICATION, where the claim expects two Claims (STATISTIC and OUTCOME) of grade
  UNSUPPORTED.
\<close>

theorem audit_studies_counterexample:
  "links_nearby_of studies_content (section_of_text studies_sentence) = []
   \<and> claims (audit_claims studies_content) =
       [\<lparr> cl_text = studies_sentence, claim_type = STATISTIC, cl_section_index = 0,
          evidence_grade = NEEDS_QUALIFICATION, nearest_citation = None,
          cl_explanation = overbroad_explanation \<rparr>]"
proof -
  have "section_claims studies_content (section_of_text studies_sentence) =
       [\<lparr> cl_text = studies_sentence, claim_type = STATISTIC, cl_section_index = 0,
          evidence_grade = NEEDS_QUALIFICATION, nearest_citation = None,
          cl_explanation = overbroad_explanation \<rparr>]"
    unfolding section_claims_def links_studies
    by (simp add: section_of_text_def sentences_studies sentence_claims_def match_studies
        claim_of_def overbroad_studies grade_claim_def)
  moreover have "sections studies_content = [section_of_text studies_sentence]"
    by (simp add: studies_content_def)
  ultimately show ?thesis
    by (simp add: links_studies claims_audit_claims)
qed


subsection \<open>The forum sentence (claim C7)\<close>

lemma match_forum: "match_claim_type forum_sentence = [(STATISTIC, ''40%'')]"
  unfolding forum_sentence_def by code_simp

lemma not_overbroad_forum: "\<not> is_overbroad forum_sentence"
  unfolding forum_sentence_def by code_simp

lemma sentences_forum: "sentences_of forum_sentence = [forum_sentence]"
  unfolding forum_sentence_def by code_simp

lemma sublist_forum_indicator:
  "sublist ''forum.example.com'' s \<Longrightarrow> sublist ''forum'' s"
proof -
  assume "sublist ''forum.example.com'' s"
  moreover have "sublist ''forum'' ''forum.example.com''"
    by (simp add: sublist_code)
  ultimately show ?thesis
    by (rule sublist_order.order.trans [rotated])
qed

lemma grade_forum_link:
  assumes "sublist ''forum.example.com'' (li_domain l) \<or> sublist ''forum.example.com'' (li_url l)"
    and "\<not> is_government l" and "\<not> is_educational l"
    and "li_domain l \<notin> set trusted_domains"
  shows "grade_claim sen (l # ls) =
     (WEAKLY_SUPPORTED, Some (li_url l),
      ''Citation present but source may lack authority ('' @ li_domain l @ '').'')"
proof -
  have "sublist ''forum'' (li_domain l) \<or> sublist ''forum'' (li_url l)"
    using assms(1) sublist_forum_indicator by blast
  then have "list_ex (\<lambda>lt. sublist lt (li_domain l) \<or> sublist lt (li_url l)) low_trust_indicators"
    by (simp add: low_trust_indicators_def)
  with assms(2-4) show ?thesis
    by (simp add: grade_claim_def)
qed

text \<open>
  Claim C7. In every content, take a section whose sentences include
  \<^verbatim>\<open>According to a 2022 study, recovery rates average 40%.\<close> and whose first associated link
  points to \<^verbatim>\<open>forum.example.com\<close> (its domain or its URL contains that name), is not classed
  as governmental, educational or trusted, and has a URL. Then the audit holds a Claim for
  the sentence graded WEAKLY_SUPPORTED with that URL as its citation, and the URL is among
  \<^verbatim>\<open>low_trust_sources\<close>. In every content \<^verbatim>\<open>low_trust_sources\<close> has no duplicates and is
  sorted.
\<close>

theorem audit_forum_sentence:
  assumes "sec \<in> set (sections c)"
    and "forum_sentence \<in> set (sentences_of (cs_text sec))"
    and "links_nearby_of c sec = l # ls"
    and "sublist ''forum.example.com'' (li_domain l) \<or> sublist ''forum.example.com'' (li_url l)"
    and "\<not> is_government l" and "\<not> is_educational l"
    and "li_domain l \<notin> set trusted_domains"
    and "li_url l \<noteq> []"
  shows "(\<exists>cl \<in> set (claims (audit_claims c)).
            cl_text cl = forum_sentence \<and> cl_section_index cl = cs_index sec
            \<and> claim_type cl = STATISTIC \<and> evidence_grade cl = WEAKLY_SUPPORTED
            \<and> nearest_citation cl = Some (li_url l))
       \<and> li_url l \<in> set (low_trust_sources (audit_claims c))
       \<and> distinct (low_trust_sources (audit_claims c))
       \<and> sorted (low_trust_sources (audit_claims c))"
proof -
  let ?cl = "claim_of sec (links_nearby_of c sec) forum_sentence (STATISTIC, ''40%'')"
  have g: "grade_claim forum_sentence (links_nearby_of c sec) =
     (WEAKLY_SUPPORTED, Some (li_url l),
      ''Citation present but source may lack authority ('' @ li_domain l @ '').'')"
    unfolding assms(3) using assms(4-7) by (rule grade_forum_link)
  have mem: "?cl \<in> set (claims (audit_claims c))"
    using assms(1,2) by (intro claim_in_audit) (simp_all add: match_forum)
  have props: "cl_text ?cl = forum_sentence \<and> cl_section_index ?cl = cs_index sec
            \<and> claim_type ?cl = STATISTIC \<and> evidence_grade ?cl = WEAKLY_SUPPORTED
            \<and> nearest_citation ?cl = Some (li_url l)"
    by (simp add: claim_of_def g not_overbroad_forum)
  have "li_url l \<in> low_trust_of (claims (audit_claims c))"
    unfolding low_trust_of_def using mem props assms(8)
    by (auto simp: truthy_def intro!: bexI [of _ ?cl])
  then have "li_url l \<in> set (low_trust_sources (audit_claims c))"
    by (simp add: low_trust_sources_audit_claims)
  moreover have "distinct (low_trust_sources (audit_claims c))"
    and "sorted (low_trust_sources (audit_claims c))"
    by (simp_all add: low_trust_sources_audit_claims)
  ultimately show ?thesis
    using mem props by blast
qed

lemma links_forum: "links_nearby_of forum_content (section_of_text forum_sentence) = [forum_link]"
  by (simp add: links_nearby_of_def section_links_of_def forum_content_def default_content_def
      section_of_text_def add_link_def)
     (simp add: forum_link_def forum_sentence_def lower_def lower_ch_def sublist_code)

text \<open>The theorem at the content whose only section holds the sentence and whose only
  link, anchored on \<^verbatim>\<open>2022 study\<close>, goes to \<^verbatim>\<open>https://forum.example.com/thread/1\<close>.\<close>

theorem audit_forum_sentence_witness:
  "section_of_text forum_sentence \<in> set (sections forum_content)
   \<and> forum_sentence \<in> set (sentences_of (cs_text (section_of_text forum_sentence)))
   \<and> links_nearby_of forum_content (section_of_text forum_sentence) = forum_link # []
   \<and> sublist ''forum.example.com'' (li_domain forum_link)
   \<and> \<not> is_government forum_link \<and> \<not> is_educational forum_link
   \<and> li_domain forum_link \<notin> set trusted_domains
   \<and> li_url forum_link \<noteq> []
   \<and> (\<exists>cl \<in> set (claims (audit_claims forum_content)).
            cl_text cl = forum_sentence \<and> cl_section_index cl = 0
            \<and> claim_type cl = STATISTIC \<and> evidence_grade cl = WEAKLY_SUPPORTED
            \<and> nearest_citation cl = Some ''https://forum.example.com/thread/1'')
   \<and> ''https://forum.example.com/thread/1'' \<in> set (low_trust_sources (audit_claims forum_content))
   \<and> distinct (low_trust_sources (audit_claims forum_content))
   \<and> sorted (low_trust_sources (audit_claims forum_content))"
proof -
  have h1: "section_of_text forum_sentence \<in> set (sections forum_content)"
    by (simp add: forum_content_def)
  have h2: "forum_sentence \<in> set (sentences_of (cs_text (section_of_text forum_sentence)))"
    by (simp add: section_of_text_def sentences_forum)
  have h4: "sublist ''forum.example.com'' (li_domain forum_link)
            \<or> sublist ''forum.example.com'' (li_url forum_link)"
    by (simp add: forum_link_def)
  have h5: "\<not> is_government forum_link" and h6: "\<not> is_educational forum_link"
    and h7: "li_domain forum_link \<notin> set trusted_domains" and h8: "li_url forum_link \<noteq> []"
    by (simp_all add: forum_link_def trusted_domains_def)
  have i: "cs_index (section_of_text forum_sentence) = 0"
    and u: "li_url forum_link = ''https://forum.example.com/thread/1''"
    and d: "sublist ''forum.example.com'' (li_domain forum_link)"
    by (simp_all add: section_of_text_def forum_link_def)
  show ?thesis
    using audit_forum_sentence [OF h1 h2 links_forum h4 h5 h6 h7 h8] h1 h2 links_forum h5 h6 h7 h8 d
    unfolding i u by simp
qed

subsection \<open>Absolute language (claim C5)\<close>

lemma match_hundred: "match_claim_type hundred_sentence = [(STATISTIC, ''100%'')]"
  unfolding hundred_sentence_def by code_simp

lemma not_overbroad_hundred: "\<not> is_overbroad hundred_sentence"
  unfolding hundred_sentence_def by code_simp

lemma sentences_hundred: "sentences_of hundred_sentence = [hundred_sentence]"
  unfolding hundred_sentence_def by code_simp

lemma links_hundred: "links_nearby_of hundred_content (section_of_text hundred_sentence) = []"
  by (simp add: links_nearby_of_def section_links_of_def hundred_content_def default_content_def)

text \<open>
  Claim C5 at a failing input. The sentence \<^verbatim>\<open>Our clients recover 100% of the time.\<close> contains
  the absolute expression \<^verbatim>\<open>100%\<close>, yet \<^verbatim>\<open>_is_overbroad\<close> rejects it: the pattern
  \<^verbatim>\<open>\b100\s*%\b\<close> asks for a word boundary after the per-cent sign, which a following
  space or full stop never gives. For the content whose only section holds the sentence,
  the audit makes one Claim and grades it UNSUPPORTED, not NEEDS_QUALIFICATION.
\<close>

theorem audit_hundred_percent:
  "sublist ''100%'' hundred_sentence
   \<and> \<not> is_overbroad hundred_sentence
   \<and> claims (audit_claims hundred_content) =
       [\<lparr> cl_text = hundred_sentence, claim_type = STATISTIC, cl_section_index = 0,
          evidence_grade = UNSUPPORTED, nearest_citation = None,
          cl_explanation = ''No citation found near this claim.'' \<rparr>]"
proof -
  have "section_claims hundred_content (section_of_text hundred_sentence) =
       [\<lparr> cl_text = hundred_sentence, claim_type = STATISTIC, cl_section_index = 0,
          evidence_grade = UNSUPPORTED, nearest_citation = None,
          cl_explanation = ''No citation found near this claim.'' \<rparr>]"
    unfolding section_claims_def links_hundred
    by (simp add: section_of_text_def sentences_hundred sentence_claims_def match_hundred
        claim_of_def not_overbroad_hundred grade_claim_def)
  moreover have "sections hundred_content = [section_of_text hundred_sentence]"
    by (simp add: hundred_content_def)
  moreover have "sublist ''100%'' hundred_sentence"
    by (simp add: hundred_sentence_def sublist_code)
  ultimately show ?thesis
    by (simp add: claims_audit_claims not_overbroad_hundred)
qed

section \<open>Properties of the scores\<close>

subsection \<open>Rounding\<close>

lemma round_half_even_of_int [simp]: "round_half_even (of_int k) = k"
  by (simp add: round_half_even_def)

lemma round_half_even_bounds: "\<lfloor>y\<rfloor> \<le> round_half_even y \<and> round_half_even y \<le> \<lfloor>y\<rfloor> + 1"
  by (simp add: round_half_even_def Let_def)

lemma round_half_even_mono: "x \<le> y \<Longrightarrow> round_half_even x \<le> round_half_even y"
proof -
  assume xy: "x \<le> y"
  then have fl: "\<lfloor>x\<rfloor> \<le> \<lfloor>y\<rfloor>" by (rule floor_mono)
  show ?thesis
  proof (cases "\<lfloor>x\<rfloor> = \<lfloor>y\<rfloor>")
    case True
    with xy have "x - of_int \<lfloor>x\<rfloor> \<le> y - of_int \<lfloor>y\<rfloor>" by simp
    with True show ?thesis
      by (auto simp: round_half_even_def Let_def)
  next
    case False
    with fl have "\<lfloor>x\<rfloor> + 1 \<le> \<lfloor>y\<rfloor>" by simp
    with round_half_even_bounds [of x] round_half_even_bounds [of y] show ?thesis
      by linarith
  qed
qed

lemma round1_mono: "x \<le> y \<Longrightarrow> round1 x \<le> round1 y"
  by (simp add: round1_def round_half_even_mono divide_right_mono)

lemma round1_tenths: "round1 (of_int k / 10) = of_int k / 10"
  by (simp add: round1_def)

lemma round1_0 [simp]: "round1 0 = 0"
  using round1_tenths [of 0] by simp

lemma round1_25 [simp]: "round1 25 = 25"
  using round1_tenths [of 250] by simp

lemma round1_100 [simp]: "round1 100 = 100"
  using round1_tenths [of 1000] by simp

lemma round1_3125: "round1 3.125 = 3.1"
  by (simp add: round1_def round_half_even_def Let_def)

subsection \<open>The rule checkers\<close>

lemmas trust_check_defs =
  check_about_page_def check_contact_page_def check_privacy_policy_def check_terms_def
  check_editorial_policy_def check_dates_def check_citations_count_def check_disclaimers_def
  check_disclosures_def check_schema_def

lemmas experience_check_defs =
  check_firsthand_language_def check_procedural_detail_def check_caveats_def
  check_original_media_def

lemmas expertise_check_defs =
  check_terminology_def check_scope_limits_def check_depth_def check_internal_consistency_def

lemmas authoritativeness_check_defs =
  check_author_present_def check_author_bio_def check_author_page_def check_credentials_def
  check_internal_linking_def check_attorney_roster_def

lemma trust_checks_points:
  "\<forall>chk \<in> set TRUST_CHECKS.
     0 \<le> ev_points (chk c) \<and> (\<not> ev_found (chk c) \<longrightarrow> ev_points (chk c) = 0)"
  by (simp add: TRUST_CHECKS_def trust_check_defs signal_ev_def Let_def)

lemma experience_checks_points:
  "\<forall>chk \<in> set EXPERIENCE_CHECKS.
     0 \<le> ev_points (chk c) \<and> (\<not> ev_found (chk c) \<longrightarrow> ev_points (chk c) = 0)"
  by (simp add: EXPERIENCE_CHECKS_def experience_check_defs signal_ev_def Let_def split_def)

lemma expertise_checks_points:
  "\<forall>chk \<in> set EXPERTISE_CHECKS.
     0 \<le> ev_points (chk c) \<and> (\<not> ev_found (chk c) \<longrightarrow> ev_points (chk c) = 0)"
  by (simp add: EXPERTISE_CHECKS_def expertise_check_defs signal_ev_def Let_def split_def)

lemma authoritativeness_checks_points:
  "\<forall>chk \<in> set AUTHORITATIVENESS_CHECKS.
     0 \<le> ev_points (chk c) \<and> (\<not> ev_found (chk c) \<longrightarrow> ev_points (chk c) = 0)"
  by (simp add: AUTHORITATIVENESS_CHECKS_def authoritativeness_check_defs signal_ev_def Let_def)

lemma sum_list_nonneg_checks:
  "\<forall>chk \<in> set checks. 0 \<le> ev_points (chk c) \<Longrightarrow>
   0 \<le> sum_list (map ev_points (map (\<lambda>check. check c) checks))"
  by (induction checks) auto

lemma run_checks_score_bounds:
  assumes "\<forall>chk \<in> set checks. 0 \<le> ev_points (chk c)"
  shows "0 \<le> ds_score (run_checks c checks name max_pts)
       \<and> ds_score (run_checks c checks name max_pts) \<le> 25"
proof -
  let ?raw = "sum_list (map ev_points (map (\<lambda>check. check c) checks))"
  let ?score = "if 0 < max_pts then min 25 ((?raw / max_pts) * 25) else 0"
  have raw: "0 \<le> ?raw" using assms by (rule sum_list_nonneg_checks)
  have "0 \<le> ?score \<and> ?score \<le> 25"
    using raw by simp
  then have "round1 0 \<le> round1 ?score \<and> round1 ?score \<le> round1 25"
    by (simp add: round1_mono del: round1_0 round1_25)
  then show ?thesis
    by (simp add: run_checks_def Let_def)
qed

lemma run_checks_signals:
  "ds_signals (run_checks c checks name max_pts) = map (\<lambda>check. check c) checks"
  by (simp add: run_checks_def Let_def)

text \<open>The rule checkers keep the invariant of claim C2 and the bounds of claim C4.\<close>

lemma rules_engine_evidence:
  assumes "run_rules_engine c risk preset k = Some d" and "ev \<in> set (ds_signals d)"
  shows "0 \<le> ev_points ev \<and> (\<not> ev_found ev \<longrightarrow> ev_points ev = 0)"
proof -
  from assms(1) consider
      "d = run_checks c TRUST_CHECKS ''Trust'' 18"
    | "d = run_checks c EXPERIENCE_CHECKS ''Experience'' 13"
    | "d = run_checks c EXPERTISE_CHECKS ''Expertise'' 12"
    | "d = run_checks c AUTHORITATIVENESS_CHECKS ''Authoritativeness'' 15.5"
    by (auto simp: run_rules_engine_def split: if_splits)
  then show ?thesis
  proof cases
    case 1
    with assms(2) trust_checks_points [of c] show ?thesis
      by (auto simp: run_checks_signals)
  next
    case 2
    with assms(2) experience_checks_points [of c] show ?thesis
      by (auto simp: run_checks_signals)
  next
    case 3
    with assms(2) expertise_checks_points [of c] show ?thesis
      by (auto simp: run_checks_signals)
  next
    case 4
    with assms(2) authoritativeness_checks_points [of c] show ?thesis
      by (auto simp: run_checks_signals)
  qed
qed

lemma rules_engine_score_bounds:
  assumes "run_rules_engine c risk preset k = Some d"
  shows "0 \<le> ds_score d \<and> ds_score d \<le> 25"
proof -
  from assms consider
      "d = run_checks c TRUST_CHECKS ''Trust'' 18"
    | "d = run_checks c EXPERIENCE_CHECKS ''Experience'' 13"
    | "d = run_checks c EXPERTISE_CHECKS ''Expertise'' 12"
    | "d = run_checks c AUTHORITATIVENESS_CHECKS ''Authoritativeness'' 15.5"
    by (auto simp: run_rules_engine_def split: if_splits)
  then show ?thesis
  proof cases
    case 1
    with trust_checks_points [of c] show ?thesis
      by (simp add: run_checks_score_bounds)
  next
    case 2
    with experience_checks_points [of c] show ?thesis
      by (simp add: run_checks_score_bounds)
  next
    case 3
    with expertise_checks_points [of c] show ?thesis
      by (simp add: run_checks_score_bounds)
  next
    case 4
    with authoritativeness_checks_points [of c] show ?thesis
      by (simp add: run_checks_score_bounds)
  qed
qed

subsection \<open>The advisory rater and the merge\<close>

lemma capitalize_keys:
  "capitalize ''experience'' = ''Experience''" "capitalize ''expertise'' = ''Expertise''"
  "capitalize ''authoritativeness'' = ''Authoritativeness''" "capitalize ''trust'' = ''Trust''"
  by (simp_all add: capitalize_def upper_ch_def lower_def lower_ch_def)

lemma parse_model_response_keys:
  "parse_model_response data =
     [''experience'' \<mapsto> parse_block ''experience'' (case data ''experience'' of None \<Rightarrow> empty_block | Some b \<Rightarrow> b),
      ''expertise'' \<mapsto> parse_block ''expertise'' (case data ''expertise'' of None \<Rightarrow> empty_block | Some b \<Rightarrow> b),
      ''authoritativeness'' \<mapsto> parse_block ''authoritativeness'' (case data ''authoritativeness'' of None \<Rightarrow> empty_block | Some b \<Rightarrow> b),
      ''trust'' \<mapsto> parse_block ''trust'' (case data ''trust'' of None \<Rightarrow> empty_block | Some b \<Rightarrow> b)]"
  by (simp add: parse_model_response_def dimension_keys_def)

text \<open>
  Claim C2 at a failing input. The rule checkers keep the invariant (lemma
  \<open>rules_engine_evidence\<close>), because \<^verbatim>\<open>_signal\<close> zeroes the points of a signal that was not
  found. The parser of the advisory response builds the Evidence without \<^verbatim>\<open>_signal\<close>: for
  a response whose signal has \<^verbatim>\<open>found = false\<close> and \<^verbatim>\<open>points = 2\<close>, the Evidence keeps both.
\<close>

theorem parser_keeps_points_of_unfound_signal:
  "parse_model_response unfound_response ''trust'' =
     Some \<lparr> ds_name = ''Trust'', ds_score = 12.5, max_score = 25,
            ds_signals = [\<lparr> ev_signal = ''Sources cited'', ev_found = False, ev_quote = [],
                             ev_location = [], ev_points = 2,
                             ev_explanation = ''No sources are cited.'' \<rparr>],
            ds_summary = ''Weak sourcing.'' \<rparr>"
  by (simp add: parse_model_response_keys unfound_response_def parse_block_def parse_signal_def
      capitalize_keys Let_def round1_def round_half_even_def)

lemma run_rules_engine_keys:
  "run_rules_engine c risk preset ''experience'' = Some (run_checks c EXPERIENCE_CHECKS ''Experience'' 13)"
  "run_rules_engine c risk preset ''expertise'' = Some (run_checks c EXPERTISE_CHECKS ''Expertise'' 12)"
  "run_rules_engine c risk preset ''authoritativeness'' = Some (run_checks c AUTHORITATIVENESS_CHECKS ''Authoritativeness'' 15.5)"
  "run_rules_engine c risk preset ''trust'' = Some (run_checks c TRUST_CHECKS ''Trust'' 18)"
  by (simp_all add: run_rules_engine_def)

lemma default_experience_score:
  "ds_score (run_checks default_content EXPERIENCE_CHECKS ''Experience'' 13) = 0"
  by code_simp

lemma merge_dimensions_Some:
  "merge_dimensions rules (Some model) w =
     [''experience'' \<mapsto> merge_one rules model w ''experience'',
      ''expertise'' \<mapsto> merge_one rules model w ''expertise'',
      ''authoritativeness'' \<mapsto> merge_one rules model w ''authoritativeness'',
      ''trust'' \<mapsto> merge_one rules model w ''trust'']"
  by (simp add: merge_dimensions_def dimension_keys_def)

text \<open>
  Claim C4 at a failing input. The rule checkers give scores between 0 and 25 (lemma
  \<open>rules_engine_score_bounds\<close>). The parser bounds the points of a signal by 4 from above
  only, and the score by 25 from above only: a response with one signal of \<open>-4\<close> points
  gives the dimension score \<open>-25\<close>, and the merged score of that dimension, for a content on
  which the rule checkers give 0, is \<open>-10\<close>.
\<close>

theorem parser_gives_negative_score:
  "map_option ds_score (parse_model_response negative_response ''experience'') = Some (- 25)
   \<and> map_option ds_score
        (fst (score_dimensions default_content RISK_LOW GENERAL ''sk-test''
                (Responded negative_response)) ''experience'') = Some (- 10)"
proof -
  have p: "map_option ds_score (parse_model_response negative_response ''experience'') = Some (- 25)"
    using round1_tenths [of "- 250"]
    by (simp add: parse_model_response_keys negative_response_def parse_block_def
        parse_signal_def Let_def)
  then have p': "ds_score (case parse_model_response negative_response ''experience'' of
                  None \<Rightarrow> default_dimension (capitalize ''experience'') | Some d \<Rightarrow> d) = - 25"
    by (auto split: option.splits)
  have "map_option ds_score
        (fst (score_dimensions default_content RISK_LOW GENERAL ''sk-test''
                (Responded negative_response)) ''experience'') = Some (- 10)"
    using round1_tenths [of "- 100"]
    by (simp add: score_dimensions_def run_model_rater_def Let_def merge_dimensions_Some
        merge_one_def run_rules_engine_keys default_experience_score p')
  with p show ?thesis by simp
qed

subsection \<open>The Expertise floor and the unavailable rater\<close>

lemma expertise_raw_points:
  "1.5 \<le> sum_list (map ev_points (map (\<lambda>check. check c) EXPERTISE_CHECKS))"
proof -
  have "0 \<le> ev_points (check_terminology c)" "0 \<le> ev_points (check_scope_limits c)"
    "0 \<le> ev_points (check_depth c)"
    using expertise_checks_points [of c] by (simp_all add: EXPERTISE_CHECKS_def)
  moreover have "ev_points (check_internal_consistency c) = 1.5"
    by (simp add: check_internal_consistency_def signal_ev_def)
  ultimately show ?thesis
    by (simp add: EXPERTISE_CHECKS_def)
qed

lemma expertise_score_lower: "3.1 \<le> ds_score (run_checks c EXPERTISE_CHECKS ''Expertise'' 12)"
proof -
  let ?raw = "sum_list (map ev_points (map (\<lambda>check. check c) EXPERTISE_CHECKS))"
  have "3.125 \<le> min 25 ((?raw / 12) * 25)"
    using expertise_raw_points [of c] by simp
  then have "round1 3.125 \<le> round1 (min 25 ((?raw / 12) * 25))"
    by (rule round1_mono)
  then have "3.1 \<le> round1 (min 25 ((?raw / 12) * 25))"
    by (simp only: round1_3125)
  moreover have "ds_score (run_checks c EXPERTISE_CHECKS ''Expertise'' 12)
                 = round1 (min 25 ((?raw / 12) * 25))"
    by (simp add: run_checks_def Let_def)
  ultimately show ?thesis by (simp only:)
qed

lemma merge_dimensions_None [simp]: "merge_dimensions rules None w = rules"
  by (simp add: merge_dimensions_def)

text \<open>
  Claim C10. For every content, the Expertise dimension of \<^verbatim>\<open>run_rules_engine\<close> holds the
  Evidence \<^verbatim>\<open>Internal consistency\<close> with \<^verbatim>\<open>found = True\<close> and 1.5 points, and its score is at
  least 3.1, hence not 0.
\<close>

theorem expertise_has_internal_consistency:
  "\<exists>d. run_rules_engine c risk preset ''expertise'' = Some d
     \<and> \<lparr> ev_signal = ''Internal consistency'', ev_found = True, ev_quote = [], ev_location = [],
          ev_points = 1.5,
          ev_explanation = ''No obvious contradictions detected (deep check deferred to AI rater).'' \<rparr>
         \<in> set (ds_signals d)
     \<and> 3.1 \<le> ds_score d \<and> ds_score d \<noteq> 0"
proof -
  let ?d = "run_checks c EXPERTISE_CHECKS ''Expertise'' 12"
  have "run_rules_engine c risk preset ''expertise'' = Some ?d"
    by (rule run_rules_engine_keys)
  moreover have "check_internal_consistency c \<in> set (ds_signals ?d)"
    by (simp add: run_checks_signals EXPERTISE_CHECKS_def)
  then have "\<lparr> ev_signal = ''Internal consistency'', ev_found = True, ev_quote = [], ev_location = [],
          ev_points = 1.5,
          ev_explanation = ''No obvious contradictions detected (deep check deferred to AI rater).'' \<rparr>
         \<in> set (ds_signals ?d)"
    by (simp add: check_internal_consistency_def signal_ev_def)
  moreover have "3.1 \<le> ds_score ?d" by (rule expertise_score_lower)
  moreover from this have "ds_score ?d \<noteq> 0" by simp
  ultimately show ?thesis by blast
qed

lemma compute_overall_rules:
  "\<exists>v. compute_overall (run_rules_engine c risk preset) p = Some v"
  by (simp add: compute_overall_def run_rules_engine_keys Let_def)

text \<open>
  Claim C3. If there is no API key or the call fails, \<^verbatim>\<open>run_model_rater\<close> returns \<^verbatim>\<open>None\<close>,
  \<^verbatim>\<open>_merge_dimensions\<close> returns the rule-checker scores as they are (scores, evidence
  lists and summaries), and the overall score is the one computed from the rule-checker
  scores alone, which exists.
\<close>

theorem unavailable_rater_leaves_rules_scores:
  assumes "api_key = [] \<or> outcome = Failed"
  shows "run_model_rater api_key outcome = None
       \<and> merge_dimensions rules (run_model_rater api_key outcome) w = rules
       \<and> compute_overall (merge_dimensions rules (run_model_rater api_key outcome) w) preset
           = compute_overall rules preset
       \<and> score_dimensions c risk preset api_key outcome
           = (run_rules_engine c risk preset,
              compute_overall (run_rules_engine c risk preset) preset)
       \<and> compute_overall (run_rules_engine c risk preset) preset \<noteq> None"
proof -
  from assms have n: "run_model_rater api_key outcome = None"
    by (auto simp: run_model_rater_def)
  moreover have "compute_overall (run_rules_engine c risk preset) preset \<noteq> None"
    using compute_overall_rules [of c risk preset preset] by auto
  ultimately show ?thesis
    by (simp add: score_dimensions_def Let_def)
qed

text \<open>The theorem for the default content, without an API key.\<close>

theorem unavailable_rater_leaves_rules_scores_witness:
  "(([] :: string) = [] \<or> Responded negative_response = Failed)
   \<and> run_model_rater [] (Responded negative_response) = None
   \<and> merge_dimensions (run_rules_engine default_content RISK_LOW GENERAL)
        (run_model_rater [] (Responded negative_response)) 0.6
       = run_rules_engine default_content RISK_LOW GENERAL
   \<and> score_dimensions default_content RISK_LOW GENERAL [] (Responded negative_response)
       = (run_rules_engine default_content RISK_LOW GENERAL,
          compute_overall (run_rules_engine default_content RISK_LOW GENERAL) GENERAL)"
  using unavailable_rater_leaves_rules_scores
    [of "[]" "Responded negative_response" "run_rules_engine default_content RISK_LOW GENERAL"
        "0.6" GENERAL default_content RISK_LOW]
  by simp

end
